theory Spec2Isabelle
  imports Complex_Main "HOL-Library.Product_Lexorder" "HOL-Library.List_Lexorder"
begin

section \<open>Data model\<close>

text \<open>
  The engine lives in the route handlers of the Express applications of the repository,
  which keeps several variants of them side by side:
  \<^item> \<^verbatim>\<open>src/unnamed/part_000\<close>, lines 21-388 (routes on \<^verbatim>\<open>router\<close>, columns
    \<^verbatim>\<open>white_id\<close>, \<^verbatim>\<open>black_id\<close>, \<^verbatim>\<open>had_bye\<close>): the variant the specification follows, and the
    one modelled under the names \<open>generateNextRound\<close>, \<open>setResult\<close>, \<open>computeStandings\<close>;
  \<^item> \<^verbatim>\<open>src/unnamed/part_000\<close>, lines 389-713 (routes on \<^verbatim>\<open>app\<close> under \<^verbatim>\<open>/api\<close>, columns
    \<^verbatim>\<open>white_player_id\<close>, \<^verbatim>\<open>black_player_id\<close>, \<^verbatim>\<open>has_had_bye\<close>): its generator is
    \<open>generateNextRound_server\<close>;
  \<^item> \<^verbatim>\<open>src/netlify/functions/api.js\<close>, lines 272-622, and lines 1-271 (the same behind a
    login, pairing with the package \<^verbatim>\<open>swiss-pairing\<close>): their result update is
    \<open>setResult_api\<close>.

  A row of table \<^verbatim>\<open>players\<close> and a row of table \<^verbatim>\<open>pairings\<close> are records. Keys are SQL
  integers; \<^verbatim>\<open>points\<close> is an exact SQL numeric, changed only by adding and subtracting
  \<^verbatim>\<open>1\<close> and \<^verbatim>\<open>0.5\<close>, hence a rational; a nullable column is an \<^verbatim>\<open>option\<close>. Every
  INSERT of the source gives \<^verbatim>\<open>white_id\<close> a player, so it is not nullable here. The columns
  \<^verbatim>\<open>grade\<close> and \<^verbatim>\<open>school\<close> are never read by the engine and are left out.
\<close>

record player =
  player_id :: int
  tournament_id :: int
  name :: string
  points :: rat
  had_bye :: bool

record pairing =
  pairing_id :: int
  pairing_tournament_id :: int
  round_number :: int
  white_id :: int
  black_id :: "int option"
  result :: "string option"

text \<open>
  The database: both tables in scan order, and the sequence that numbers inserted pairings.
\<close>

record db =
  players :: "player list"
  pairings :: "pairing list"
  pairings_id_seq :: int

text \<open>The HTTP status a handler answers with when it does not succeed.\<close>

datatype failure = BadRequest | NotFound | ServerError

section \<open>Score ledger and result update (\<^verbatim>\<open>PUT /pairings/:id\<close>)\<close>

text \<open>
  \<^verbatim>\<open>UPDATE players SET points = points + $1 WHERE id = $2\<close> and its subtracting twin. A
  null \<^verbatim>\<open>$2\<close> matches no row.
\<close>

definition add_points :: "rat \<Rightarrow> int option \<Rightarrow> player list \<Rightarrow> player list" where
  "add_points d i ps = map (\<lambda>p. if Some (player_id p) = i then p\<lparr>points := points p + d\<rparr> else p) ps"

definition sub_points :: "rat \<Rightarrow> int option \<Rightarrow> player list \<Rightarrow> player list" where
  "sub_points d i ps = map (\<lambda>p. if Some (player_id p) = i then p\<lparr>points := points p - d\<rparr> else p) ps"

text \<open>
  The point mapping of part_000, lines 310-313 and 319-322: two variables start at 0 and an
  if / else-if chain on the result string sets them.
\<close>

definition whitePoints :: "string option \<Rightarrow> rat" where
  "whitePoints r =
     (if r = Some ''1-0'' then 1 else if r = Some ''0-1'' then 0
      else if r = Some ''0.5-0.5'' then 1 / 2 else 0)"

definition blackPoints :: "string option \<Rightarrow> rat" where
  "blackPoints r =
     (if r = Some ''1-0'' then 0 else if r = Some ''0-1'' then 1
      else if r = Some ''0.5-0.5'' then 1 / 2 else 0)"

text \<open>JavaScript truthiness of a nullable string: null and the empty string are falsy.\<close>

definition truthy :: "string option \<Rightarrow> bool" where
  "truthy r = (case r of None \<Rightarrow> False | Some s \<Rightarrow> s \<noteq> [])"

text \<open>\<^verbatim>\<open>['1-0', '0-1', '0.5-0.5'].includes(result)\<close>; a missing or null body field is None.\<close>

definition is_valid_result :: "string option \<Rightarrow> bool" where
  "is_valid_result r = (r \<in> set [Some ''1-0'', Some ''0-1'', Some ''0.5-0.5''])"

text \<open>The body of the reversal block (part_000, lines 310-315) and the application block
  (lines 319-325).\<close>

definition reverseResult :: "player list \<Rightarrow> pairing \<Rightarrow> string option \<Rightarrow> player list" where
  "reverseResult ps p old =
     sub_points (blackPoints old) (black_id p) (sub_points (whitePoints old) (Some (white_id p)) ps)"

definition applyResult :: "player list \<Rightarrow> pairing \<Rightarrow> string option \<Rightarrow> player list" where
  "applyResult ps p new =
     add_points (blackPoints new) (black_id p) (add_points (whitePoints new) (Some (white_id p)) ps)"

text \<open>\<^verbatim>\<open>UPDATE pairings SET result = $1 WHERE id = $2\<close>.\<close>

definition store_result :: "string option \<Rightarrow> int \<Rightarrow> pairing list \<Rightarrow> pairing list" where
  "store_result r i prs = map (\<lambda>p. if pairing_id p = i then p\<lparr>result := r\<rparr> else p) prs"

text \<open>
  The handler of part_000, lines 291-339. An invalid result is answered with 400 before the
  database is touched; a pairing that is not found throws inside the transaction, which is
  rolled back and answered with 500.
\<close>

definition setResult :: "db \<Rightarrow> int \<Rightarrow> string option \<Rightarrow> failure + db" where
  "setResult d i r =
     (if \<not> is_valid_result r then Inl BadRequest
      else case find (\<lambda>p. pairing_id p = i) (pairings d) of
          None \<Rightarrow> Inl ServerError
        | Some p \<Rightarrow>
            Inr (d\<lparr>players :=
                      applyResult
                        (if truthy (result p) then reverseResult (players d) p (result p)
                         else players d) p r,
                    pairings := store_result r i (pairings d)\<rparr>))"

section \<open>Pairing generator (\<^verbatim>\<open>POST /tournaments/:tournamentId/pairings/generate\<close>)\<close>

text \<open>
  The canonical sort of part_000, line 226:
  \<^verbatim>\<open>players.sort((a, b) => b.points - a.points || a.name.localeCompare(b.name))\<close>.
  \<^verbatim>\<open>Array.prototype.sort\<close> is stable, so with a comparator that compares keys it returns
  what the stable insertion sort \<^const>\<open>sort_key\<close> returns. The key is the pair of the negated
  points and the collation key of the name, ordered lexicographically. The collation that
  \<^verbatim>\<open>localeCompare\<close> uses depends on the locale of the process, so it is a parameter:
  \<open>collate\<close> maps a name to its collation key in some linear order.
\<close>

definition swiss_key :: "(string \<Rightarrow> 'k::linorder) \<Rightarrow> player \<Rightarrow> rat \<times> 'k" where
  "swiss_key collate p = (- points p, collate (name p))"

text \<open>A collation for examples: names compared by their code units. Every locale orders
  names that differ only in a final digit this way.\<close>

definition code_units :: "string \<Rightarrow> nat list" where
  "code_units s = map of_char s"

text \<open>\<^verbatim>\<open>allPairings.some(p => ...)\<close> of part_000, lines 251-254.\<close>

definition havePlayed :: "pairing list \<Rightarrow> player \<Rightarrow> player \<Rightarrow> bool" where
  "havePlayed allPairings player1 player2 =
     list_ex (\<lambda>p. (white_id p = player_id player1 \<and> black_id p = Some (player_id player2)) \<or>
                   (white_id p = player_id player2 \<and> black_id p = Some (player_id player1)))
       allPairings"

text \<open>An element of the local array \<^verbatim>\<open>newPairings\<close>.\<close>

record new_pairing =
  np_white_id :: int
  np_black_id :: "int option"
  np_result :: "string option"

text \<open>
  Lines 232-236: the bye goes to element 0 of the players without a bye, stably sorted by
  ascending points; when there is none, \<^verbatim>\<open>availablePlayers\<close> itself is sorted in place
  by ascending points and its element 0 is taken. The result is the chosen player and
  \<^verbatim>\<open>availablePlayers\<close> as the choice leaves it; None is the TypeError of reading
  \<^verbatim>\<open>playerToBye.id\<close> when no player exists.
\<close>

definition select_bye :: "player list \<Rightarrow> (player \<times> player list) option" where
  "select_bye availablePlayers =
     (case sort_key points (filter (\<lambda>p. \<not> had_bye p) availablePlayers) of
        playerToBye # _ \<Rightarrow> Some (playerToBye, availablePlayers)
      | [] \<Rightarrow>
         (case sort_key points availablePlayers of
            playerToBye # others \<Rightarrow> Some (playerToBye, playerToBye # others)
          | [] \<Rightarrow> None))"

text \<open>\<^verbatim>\<open>UPDATE players SET points = points + 1, had_bye = TRUE WHERE id = $1\<close>.\<close>

definition award_bye :: "int \<Rightarrow> player list \<Rightarrow> player list" where
  "award_bye i ps =
     map (\<lambda>p. if player_id p = i then p\<lparr>points := points p + 1, had_bye := True\<rparr> else p) ps"

text \<open>
  Lines 247-263: the first player of the pool that is another, unpaired player and has not
  played \<^verbatim>\<open>player1\<close>; failing that, the first other unpaired player.
\<close>

definition find_opponent :: "pairing list \<Rightarrow> player list \<Rightarrow> int set \<Rightarrow> player \<Rightarrow> player option" where
  "find_opponent allPairings availablePlayers pairedIds player1 =
     (case find (\<lambda>player2. \<not> (player_id player1 = player_id player2 \<or> player_id player2 \<in> pairedIds)
                      \<and> \<not> havePlayed allPairings player1 player2) availablePlayers of
        Some opponent \<Rightarrow> Some opponent
      | None \<Rightarrow> find (\<lambda>p. player_id p \<noteq> player_id player1 \<and> player_id p \<notin> pairedIds) availablePlayers)"

text \<open>
  The loop of lines 244-270 over \<^verbatim>\<open>availablePlayers\<close>; the state is the set
  \<^verbatim>\<open>pairedIds\<close> and the array \<^verbatim>\<open>newPairings\<close>.
\<close>

fun pair_loop :: "pairing list \<Rightarrow> player list \<Rightarrow> player list \<Rightarrow> int set \<times> new_pairing list
    \<Rightarrow> int set \<times> new_pairing list" where
  "pair_loop allPairings availablePlayers [] st = st"
| "pair_loop allPairings availablePlayers (player1 # rest) (pairedIds, newPairings) =
     (if player_id player1 \<in> pairedIds
      then pair_loop allPairings availablePlayers rest (pairedIds, newPairings)
      else case find_opponent allPairings availablePlayers pairedIds player1 of
          None \<Rightarrow> pair_loop allPairings availablePlayers rest (pairedIds, newPairings)
        | Some opponent \<Rightarrow>
            pair_loop allPairings availablePlayers rest
              (insert (player_id player1) (insert (player_id opponent) pairedIds),
               newPairings @ [\<lparr>np_white_id = player_id player1,
                               np_black_id = Some (player_id opponent), np_result = None\<rparr>]))"

text \<open>
  Lines 228-270 on the sorted roster: the player given the bye, if any, and the final
  \<^verbatim>\<open>newPairings\<close>.
\<close>

definition planRound :: "pairing list \<Rightarrow> player list \<Rightarrow> (player option \<times> new_pairing list) option" where
  "planRound allPairings sortedPlayers =
     (if odd (length sortedPlayers) then
        (case select_bye sortedPlayers of
           None \<Rightarrow> None
         | Some (playerToBye, availablePlayers) \<Rightarrow>
             Some (Some playerToBye,
               snd (pair_loop allPairings
                 (filter (\<lambda>p. player_id p \<noteq> player_id playerToBye) availablePlayers)
                 (filter (\<lambda>p. player_id p \<noteq> player_id playerToBye) availablePlayers)
                 ({}, [\<lparr>np_white_id = player_id playerToBye, np_black_id = None,
                        np_result = Some ''1-0''\<rparr>]))))
      else Some (None, snd (pair_loop allPairings sortedPlayers sortedPlayers ({}, []))))"

text \<open>Lines 272-277: one INSERT per element, each taking the next value of the sequence.\<close>

fun insert_pairings :: "int \<Rightarrow> int \<Rightarrow> new_pairing list \<Rightarrow> pairing list \<times> int \<Rightarrow> pairing list \<times> int" where
  "insert_pairings t r [] st = st"
| "insert_pairings t r (q # qs) (prs, n) =
     insert_pairings t r qs
       (prs @ [\<lparr>pairing_id = n, pairing_tournament_id = t, round_number = r,
                 white_id = np_white_id q, black_id = np_black_id q, result = np_result q\<rparr>],
        n + 1)"

text \<open>The roster and the history of a tournament, and the number of the next round
  (lines 214, 221 and 224).\<close>

definition roster :: "db \<Rightarrow> int \<Rightarrow> player list" where
  "roster d t = filter (\<lambda>p. tournament_id p = t) (players d)"

definition history :: "db \<Rightarrow> int \<Rightarrow> pairing list" where
  "history d t = filter (\<lambda>p. pairing_tournament_id p = t) (pairings d)"

definition next_round :: "pairing list \<Rightarrow> int" where
  "next_round allPairings =
     (if allPairings = [] then 1 else Max (set (map round_number allPairings)) + 1)"

text \<open>The handler of part_000, lines 207-289.\<close>

definition generateNextRound :: "(string \<Rightarrow> 'k::linorder) \<Rightarrow> db \<Rightarrow> int \<Rightarrow> failure + db" where
  "generateNextRound collate d tournamentId =
     (if length (roster d tournamentId) < 2 then Inl BadRequest
      else case planRound (history d tournamentId)
                  (sort_key (swiss_key collate) (roster d tournamentId)) of
          None \<Rightarrow> Inl ServerError
        | Some (bye, newPairings) \<Rightarrow>
            Inr \<lparr>players = (case bye of None \<Rightarrow> players d
                             | Some playerToBye \<Rightarrow> award_bye (player_id playerToBye) (players d)),
                 pairings = fst (insert_pairings tournamentId (next_round (history d tournamentId))
                                  newPairings (pairings d, pairings_id_seq d)),
                 pairings_id_seq = snd (insert_pairings tournamentId
                                  (next_round (history d tournamentId))
                                  newPairings (pairings d, pairings_id_seq d))\<rparr>)"

text \<open>The players named by a list of new pairings, in order: white, then black if any.\<close>

definition participants :: "new_pairing list \<Rightarrow> int list" where
  "participants qs =
     concat (map (\<lambda>q. np_white_id q # (case np_black_id q of None \<Rightarrow> [] | Some b \<Rightarrow> [b])) qs)"

text \<open>The same for rows of table \<^verbatim>\<open>pairings\<close>.\<close>

definition row_seats :: "pairing list \<Rightarrow> int list" where
  "row_seats rows =
     concat (map (\<lambda>p. white_id p # (case black_id p of None \<Rightarrow> [] | Some b \<Rightarrow> [b])) rows)"

text \<open>
  The rule of section 8 of the specification for a list of new games, read from the front:
  when a game is a rematch, every player of the pool other than its white player was
  already paired at that moment or has played the white player too. \<open>haveMet\<close> is
  \<^const>\<open>havePlayed\<close> on keys.
\<close>

definition haveMet :: "pairing list \<Rightarrow> int \<Rightarrow> int \<Rightarrow> bool" where
  "haveMet h a b = list_ex (\<lambda>p. (white_id p = a \<and> black_id p = Some b) \<or>
                              (white_id p = b \<and> black_id p = Some a)) h"

fun rematches_forced :: "pairing list \<Rightarrow> int list \<Rightarrow> int set \<Rightarrow> new_pairing list \<Rightarrow> bool" where
  "rematches_forced h pool paired [] = True"
| "rematches_forced h pool paired (q # qs) =
     ((case np_black_id q of
         None \<Rightarrow> False
       | Some b \<Rightarrow>
           (\<not> haveMet h (np_white_id q) b \<or>
            list_all (\<lambda>c. c = np_white_id q \<or> c \<in> paired \<or> haveMet h (np_white_id q) c) pool) \<and>
           rematches_forced h pool (insert (np_white_id q) (insert b paired)) qs))"

section \<open>The generator of the second application (part_000, lines 562-618)\<close>

text \<open>
  The roster arrives sorted by the query (\<^verbatim>\<open>ORDER BY points DESC, name ASC\<close>). Lines
  574-580 build \<^verbatim>\<open>pastOpponents\<close>, an object with one empty array per roster player, and
  push both directions of every past pairing whose two ids are truthy. Pushing to the entry
  of an id that is not a key of the object is a TypeError (None here), answered with 500.
\<close>

fun record_history :: "pairing list \<Rightarrow> (int \<rightharpoonup> int list) \<Rightarrow> (int \<rightharpoonup> int list) option" where
  "record_history [] pastOpponents = Some pastOpponents"
| "record_history (p # ps) pastOpponents =
     (case black_id p of
        None \<Rightarrow> record_history ps pastOpponents
      | Some b \<Rightarrow>
          if white_id p = 0 \<or> b = 0 then record_history ps pastOpponents
          else (case pastOpponents (white_id p) of
                  None \<Rightarrow> None
                | Some ws \<Rightarrow>
                   (case (pastOpponents(white_id p \<mapsto> ws @ [b])) b of
                      None \<Rightarrow> None
                    | Some bs \<Rightarrow>
                        record_history ps
                          ((pastOpponents(white_id p \<mapsto> ws @ [b]))(b \<mapsto> bs @ [white_id p])))))"

text \<open>Line 584: the last player of the sorted roster without a bye, else the last player.\<close>

definition select_bye_server :: "player list \<Rightarrow> player option" where
  "select_bye_server sortedPlayers =
     (case find (\<lambda>p. \<not> had_bye p) (rev sortedPlayers) of
        Some byePlayer \<Rightarrow> Some byePlayer
      | None \<Rightarrow> (if sortedPlayers = [] then None else Some (last sortedPlayers)))"

text \<open>
  The loop of lines 591-607. The candidates of \<^verbatim>\<open>playersToPair[i]\<close> are the players
  after it; when none of them is unpaired and new to \<^verbatim>\<open>player1\<close>, nothing is inserted
  and the loop goes on. None is the TypeError of reading the entry of a player that
  \<^verbatim>\<open>pastOpponents\<close> does not hold.
\<close>

fun pair_loop_server :: "(int \<rightharpoonup> int list) \<Rightarrow> player list \<Rightarrow> int set \<times> new_pairing list
    \<Rightarrow> (int set \<times> new_pairing list) option" where
  "pair_loop_server pastOpponents [] st = Some st"
| "pair_loop_server pastOpponents (player1 # rest) (paired, inserted) =
     (if player_id player1 \<in> paired then pair_loop_server pastOpponents rest (paired, inserted)
      else case pastOpponents (player_id player1) of
          None \<Rightarrow> None
        | Some met \<Rightarrow>
           (case find (\<lambda>candidate. player_id candidate \<notin> paired \<and> player_id candidate \<notin> set met)
                   rest of
              None \<Rightarrow> pair_loop_server pastOpponents rest (paired, inserted)
            | Some player2 \<Rightarrow>
                pair_loop_server pastOpponents rest
                  (insert (player_id player1) (insert (player_id player2) paired),
                   inserted @ [\<lparr>np_white_id = player_id player1,
                                np_black_id = Some (player_id player2), np_result = None\<rparr>])))"

text \<open>
  The handler of part_000, lines 562-618. It has no check of the roster size. The new round
  is \<^verbatim>\<open>COALESCE(MAX(round_number), 0) + 1\<close>.
\<close>

definition generateNextRound_server :: "(string \<Rightarrow> 'k::linorder) \<Rightarrow> db \<Rightarrow> int \<Rightarrow> failure + db" where
  "generateNextRound_server collate d tournamentId =
     (let sortedPlayers = sort_key (swiss_key collate) (roster d tournamentId);
          bye = (if odd (length sortedPlayers) then select_bye_server sortedPlayers else None);
          paired = (case bye of None \<Rightarrow> {} | Some byePlayer \<Rightarrow> {player_id byePlayer});
          byeRows = (case bye of None \<Rightarrow> []
                     | Some byePlayer \<Rightarrow> [\<lparr>np_white_id = player_id byePlayer, np_black_id = None,
                                            np_result = Some ''1-0''\<rparr>])
      in case record_history (history d tournamentId)
                (map_of (map (\<lambda>p. (player_id p, [])) sortedPlayers)) of
          None \<Rightarrow> Inl ServerError
        | Some pastOpponents \<Rightarrow>
           (case pair_loop_server pastOpponents
                   (filter (\<lambda>p. player_id p \<notin> paired) sortedPlayers) (paired, byeRows) of
              None \<Rightarrow> Inl ServerError
            | Some (paired', inserted) \<Rightarrow>
                Inr \<lparr>players = (case bye of None \<Rightarrow> players d
                                 | Some byePlayer \<Rightarrow> award_bye (player_id byePlayer) (players d)),
                     pairings = fst (insert_pairings tournamentId
                                      (next_round (history d tournamentId)) inserted
                                      (pairings d, pairings_id_seq d)),
                     pairings_id_seq = snd (insert_pairings tournamentId
                                      (next_round (history d tournamentId)) inserted
                                      (pairings d, pairings_id_seq d))\<rparr>))"

section \<open>The result update of \<^verbatim>\<open>src/netlify/functions/api.js\<close> (lines 530-572)\<close>

text \<open>
  The handler reads \<^verbatim>\<open>result\<close> from the body and never compares it with the permitted
  strings. Its reversal and application are three independent \<^verbatim>\<open>if\<close> statements each. A
  missing pairing is answered with 404. A body without \<^verbatim>\<open>result\<close> (None) reaches the
  last query as a null parameter.
\<close>

definition reverseResult_api :: "player list \<Rightarrow> pairing \<Rightarrow> string option \<Rightarrow> player list" where
  "reverseResult_api ps p old =
     (let ps1 = (if old = Some ''1-0'' then sub_points 1 (Some (white_id p)) ps else ps);
          ps2 = (if old = Some ''0-1'' then sub_points 1 (black_id p) ps1 else ps1)
      in if old = Some ''0.5-0.5''
         then sub_points (1 / 2) (black_id p) (sub_points (1 / 2) (Some (white_id p)) ps2)
         else ps2)"

definition applyResult_api :: "player list \<Rightarrow> pairing \<Rightarrow> string option \<Rightarrow> player list" where
  "applyResult_api ps p new =
     (let ps1 = (if new = Some ''1-0'' then add_points 1 (Some (white_id p)) ps else ps);
          ps2 = (if new = Some ''0-1'' then add_points 1 (black_id p) ps1 else ps1)
      in if new = Some ''0.5-0.5''
         then add_points (1 / 2) (black_id p) (add_points (1 / 2) (Some (white_id p)) ps2)
         else ps2)"

definition setResult_api :: "db \<Rightarrow> int \<Rightarrow> string option \<Rightarrow> failure + db" where
  "setResult_api d i r =
     (case find (\<lambda>p. pairing_id p = i) (pairings d) of
        None \<Rightarrow> Inl NotFound
      | Some p \<Rightarrow>
          Inr (d\<lparr>players :=
                    applyResult_api
                      (if truthy (result p) then reverseResult_api (players d) p (result p)
                       else players d) p r,
                  pairings := store_result r i (pairings d)\<rparr>))"

section \<open>Standings (\<^verbatim>\<open>GET /tournaments/:tournamentId/export\<close>)\<close>

text \<open>
  A row of the exported table (part_000, lines 357-364, without the columns \<^verbatim>\<open>Grado\<close>
  and \<^verbatim>\<open>Escuela\<close>). \<^verbatim>\<open>Puntos\<close> and \<^verbatim>\<open>Buchholz\<close> are the strings \<^verbatim>\<open>toFixed(1)\<close> returns;
  the comparator of the sort subtracts them, which reads them back as numbers, so a row
  holds the number the string denotes.
\<close>

record standing =
  Nombre :: string
  Puntos :: rat
  Buchholz :: rat
  Partidas :: nat

text \<open>
  \<^verbatim>\<open>Number.prototype.toFixed(1)\<close>: the nearest multiple of one tenth, the one of larger
  magnitude at a tie. Points are multiples of one half, which binary floating point holds
  exactly, so the floating point sums of the source are the rational sums here.
\<close>

definition toFixed1 :: "rat \<Rightarrow> rat" where
  "toFixed1 x =
     (if x < 0 then - (of_int \<lfloor>(- x) * 10 + 1 / 2\<rfloor> / 10) else of_int \<lfloor>x * 10 + 1 / 2\<rfloor> / 10)"

text \<open>JavaScript truthiness of a nullable key: null and 0 are falsy.\<close>

definition truthy_id :: "int option \<Rightarrow> bool" where
  "truthy_id i = (case i of None \<Rightarrow> False | Some n \<Rightarrow> n \<noteq> 0)"

text \<open>Lines 351-352: the pairings of a player, mapped to the id on the other side,
  filtered by \<^verbatim>\<open>Boolean\<close>.\<close>

definition opponentIds :: "pairing list \<Rightarrow> player \<Rightarrow> int option list" where
  "opponentIds prs player =
     filter truthy_id
       (map (\<lambda>p. if white_id p = player_id player then black_id p else Some (white_id p))
          (filter (\<lambda>p. white_id p = player_id player \<or> black_id p = Some (player_id player)) prs))"

text \<open>Lines 353-356: the reduction over the opponents; an id that no roster player has
  adds 0.\<close>

definition buchholz :: "player list \<Rightarrow> int option list \<Rightarrow> rat" where
  "buchholz ps ids =
     foldl (\<lambda>sum oppId. sum + (case find (\<lambda>p. Some (player_id p) = oppId) ps of
                                  Some opponent \<Rightarrow> points opponent
                                | None \<Rightarrow> 0)) 0 ids"

definition standing_of :: "player list \<Rightarrow> pairing list \<Rightarrow> player \<Rightarrow> standing" where
  "standing_of ps prs player =
     \<lparr>Nombre = name player, Puntos = toFixed1 (points player),
      Buchholz = toFixed1 (buchholz ps (opponentIds prs player)),
      Partidas = length (opponentIds prs player)\<rparr>"

text \<open>
  Line 365: \<^verbatim>\<open>.sort((a,b) => b.Puntos - a.Puntos || b.Buchholz - a.Buchholz)\<close>, a stable sort
  on the pair of negated keys. The name is no part of the comparator.
\<close>

definition standing_key :: "standing \<Rightarrow> rat \<times> rat" where
  "standing_key s = (- Puntos s, - Buchholz s)"

definition computeStandings :: "db \<Rightarrow> int \<Rightarrow> standing list" where
  "computeStandings d tournamentId =
     sort_key standing_key
       (map (standing_of (roster d tournamentId) (history d tournamentId)) (roster d tournamentId))"

section \<open>The standings as the specification words them\<close>

text \<open>
  Section 4.5 of the specification: for each player, sum the current points of every
  opponent they have faced; a bye contributes no opponent. The opponents of a player, one
  per pairing in which the other seat is taken:
\<close>

definition opponents_faced :: "pairing list \<Rightarrow> int \<Rightarrow> int list" where
  "opponents_faced prs i =
     concat (map (\<lambda>p. if white_id p = i then (case black_id p of None \<Rightarrow> [] | Some b \<Rightarrow> [b])
                       else if black_id p = Some i then [white_id p] else []) prs)"

text \<open>The current points of the roster player with a key; 0 when the roster has none.\<close>

definition current_points :: "player list \<Rightarrow> int \<Rightarrow> rat" where
  "current_points ps i = (case find (\<lambda>p. player_id p = i) ps of Some q \<Rightarrow> points q | None \<Rightarrow> 0)"

definition tiebreak_spec :: "player list \<Rightarrow> pairing list \<Rightarrow> int \<Rightarrow> rat" where
  "tiebreak_spec ps prs i = sum_list (map (current_points ps) (opponents_faced prs i))"

text \<open>The standing of section 3: player, points, tiebreak, games played.\<close>

definition standing_spec :: "player list \<Rightarrow> pairing list \<Rightarrow> player \<Rightarrow> standing" where
  "standing_spec ps prs player =
     \<lparr>Nombre = name player, Puntos = points player,
      Buchholz = tiebreak_spec ps prs (player_id player),
      Partidas = length (opponents_faced prs (player_id player))\<rparr>"

text \<open>
  Two conditions on the stored data. Points are multiples of one half (section 3 of the
  specification), and no pairing holds the key 0 (keys come from a sequence that starts
  at 1).
\<close>

definition is_half :: "rat \<Rightarrow> bool" where
  "is_half x = (of_int \<lfloor>2 * x\<rfloor> = 2 * x)"

definition keyed :: "pairing list \<Rightarrow> bool" where
  "keyed prs = list_all (\<lambda>p. white_id p \<noteq> 0 \<and> black_id p \<noteq> Some 0) prs"

section \<open>Example data\<close>

text \<open>The example of the specification: five players P1 to P5 of tournament 1, no points,
  no history.\<close>

definition five_players :: "player list" where
  "five_players =
     [\<lparr>player_id = 1, tournament_id = 1, name = ''P1'', points = 0, had_bye = False\<rparr>,
      \<lparr>player_id = 2, tournament_id = 1, name = ''P2'', points = 0, had_bye = False\<rparr>,
      \<lparr>player_id = 3, tournament_id = 1, name = ''P3'', points = 0, had_bye = False\<rparr>,
      \<lparr>player_id = 4, tournament_id = 1, name = ''P4'', points = 0, had_bye = False\<rparr>,
      \<lparr>player_id = 5, tournament_id = 1, name = ''P5'', points = 0, had_bye = False\<rparr>]"

definition five_db :: db where
  "five_db = \<lparr>players = five_players, pairings = [], pairings_id_seq = 1\<rparr>"

text \<open>Two players with given points and the game of round 1 between them, with a given
  stored result.\<close>

definition game :: "string option \<Rightarrow> pairing" where
  "game r = \<lparr>pairing_id = 1, pairing_tournament_id = 1, round_number = 1, white_id = 1,
             black_id = Some 2, result = r\<rparr>"

definition game_db :: "string option \<Rightarrow> rat \<Rightarrow> rat \<Rightarrow> db" where
  "game_db r a b =
     \<lparr>players =
        [\<lparr>player_id = 1, tournament_id = 1, name = ''Ana'', points = a, had_bye = False\<rparr>,
         \<lparr>player_id = 2, tournament_id = 1, name = ''Ben'', points = b, had_bye = False\<rparr>],
      pairings = [game r], pairings_id_seq = 2\<rparr>"

text \<open>The five players after the first round has been generated.\<close>

definition round1_db :: db where
  "round1_db =
     \<lparr>players =
        [\<lparr>player_id = 1, tournament_id = 1, name = ''P1'', points = 1, had_bye = True\<rparr>,
         \<lparr>player_id = 2, tournament_id = 1, name = ''P2'', points = 0, had_bye = False\<rparr>,
         \<lparr>player_id = 3, tournament_id = 1, name = ''P3'', points = 0, had_bye = False\<rparr>,
         \<lparr>player_id = 4, tournament_id = 1, name = ''P4'', points = 0, had_bye = False\<rparr>,
         \<lparr>player_id = 5, tournament_id = 1, name = ''P5'', points = 0, had_bye = False\<rparr>],
      pairings =
        [\<lparr>pairing_id = 1, pairing_tournament_id = 1, round_number = 1, white_id = 1,
           black_id = None, result = Some ''1-0''\<rparr>,
         \<lparr>pairing_id = 2, pairing_tournament_id = 1, round_number = 1, white_id = 2,
           black_id = Some 3, result = None\<rparr>,
         \<lparr>pairing_id = 3, pairing_tournament_id = 1, round_number = 1, white_id = 4,
           black_id = Some 5, result = None\<rparr>],
      pairings_id_seq = 4\<rparr>"

text \<open>Two players who drew their game, stored in the order Zoe, Amy.\<close>

definition draw_db :: db where
  "draw_db =
     \<lparr>players =
        [\<lparr>player_id = 1, tournament_id = 1, name = ''Zoe'', points = 1 / 2, had_bye = False\<rparr>,
         \<lparr>player_id = 2, tournament_id = 1, name = ''Amy'', points = 1 / 2, had_bye = False\<rparr>],
      pairings =
        [\<lparr>pairing_id = 1, pairing_tournament_id = 1, round_number = 1, white_id = 1,
           black_id = Some 2, result = Some ''0.5-0.5''\<rparr>],
      pairings_id_seq = 2\<rparr>"

section \<open>Basic facts about the ledger\<close>

lemma find_store_result:
  "find (\<lambda>p. pairing_id p = i) (store_result r i prs) =
   map_option (\<lambda>p. p\<lparr>result := r\<rparr>) (find (\<lambda>p. pairing_id p = i) prs)"
  by (induction prs) (auto simp: store_result_def)

lemma store_result_twice: "store_result r i (store_result r' i prs) = store_result r i prs"
  by (simp add: store_result_def o_def cong: if_cong)

lemma reverse_apply: "reverseResult (applyResult ps p r) p r = ps"
  unfolding reverseResult_def applyResult_def sub_points_def add_points_def
  by (simp add: o_def map_idI)

lemma truthy_valid: "is_valid_result r \<Longrightarrow> truthy r"
  by (auto simp: is_valid_result_def truthy_def)


lemma setResult_rejects_invalid:
  "\<not> is_valid_result r \<Longrightarrow> setResult d i r = Inl BadRequest"
  by (simp add: setResult_def)

text \<open>On permitted results the handler of api.js does what the handler of part_000 does.\<close>

lemma sub_points_0: "sub_points 0 i ps = ps"
  by (simp add: sub_points_def map_idI)

lemma add_points_0: "add_points 0 i ps = ps"
  by (simp add: add_points_def map_idI)

lemma api_apply_agrees:
  "is_valid_result r \<Longrightarrow> applyResult_api ps p r = applyResult ps p r"
  by (auto simp: is_valid_result_def applyResult_api_def applyResult_def whitePoints_def
      blackPoints_def add_points_0)

lemma api_reverse_agrees:
  "is_valid_result r \<Longrightarrow> reverseResult_api ps p r = reverseResult ps p r"
  by (auto simp: is_valid_result_def reverseResult_api_def reverseResult_def whitePoints_def
      blackPoints_def sub_points_0)

lemma setResult_api_agrees:
  assumes "find (\<lambda>p. pairing_id p = i) (pairings d) = Some p"
    and "is_valid_result r" and "result p = None \<or> is_valid_result (result p)"
  shows "setResult_api d i r = setResult d i r"
  using assms
  by (auto simp: setResult_api_def setResult_def api_apply_agrees api_reverse_agrees truthy_def)

lemma insert_pairings_append:
  "fst (insert_pairings t r qs (prs, n)) = prs @ fst (insert_pairings t r qs ([], n))"
proof (induction qs arbitrary: prs n)
  case Nil
  show ?case by simp
next
  case (Cons q qs)
  show ?case
    using Cons.IH [of "prs @ [X]" "n + 1" for X] Cons.IH [of "[X]" "n + 1" for X]
    by simp
qed

section \<open>The pairing loop pairs everyone\<close>

lemma participants_simps [simp]:
  "participants [] = []"
  "participants (qs @ qs') = participants qs @ participants qs'"
  "participants [\<lparr>np_white_id = w, np_black_id = Some b, np_result = r\<rparr>] = [w, b]"
  "participants [\<lparr>np_white_id = w, np_black_id = None, np_result = r\<rparr>] = [w]"
  by (simp_all add: participants_def)

lemma find_opponent_Some:
  assumes "find_opponent h pool paired p1 = Some opp"
  shows "opp \<in> set pool \<and> player_id opp \<noteq> player_id p1 \<and> player_id opp \<notin> paired"
  using assms unfolding find_opponent_def
  by (auto split: option.splits simp: find_Some_iff)

lemma find_opponent_None:
  assumes "find_opponent h pool paired p1 = None" and "q \<in> set pool"
  shows "player_id q = player_id p1 \<or> player_id q \<in> paired"
  using assms unfolding find_opponent_def
  by (auto split: option.splits simp: find_None_iff)

lemma find_opponent_rematch:
  assumes "find_opponent h pool paired p1 = Some opp" and "havePlayed h p1 opp"
    and "c \<in> set pool" and "player_id c \<noteq> player_id p1" and "player_id c \<notin> paired"
  shows "havePlayed h p1 c"
  using assms unfolding find_opponent_def
  by (auto split: option.splits simp: find_Some_iff find_None_iff)

lemma havePlayed_haveMet: "havePlayed h p1 p2 = haveMet h (player_id p1) (player_id p2)"
  by (simp add: havePlayed_def haveMet_def)

lemma pair_loop_rematches:
  "\<exists>new. snd (pair_loop h pool rest (paired, acc)) = acc @ new \<and>
         rematches_forced h (map player_id pool) paired new"
proof (induction rest arbitrary: paired acc)
  case Nil
  show ?case by simp
next
  case (Cons p1 rest)
  show ?case
  proof (cases "player_id p1 \<in> paired")
    case True
    with Cons.IH [of paired acc] show ?thesis by simp
  next
    case False
    show ?thesis
    proof (cases "find_opponent h pool paired p1")
      case None
      with False Cons.IH [of paired acc] show ?thesis by simp
    next
      case (Some opp)
      let ?q = "\<lparr>np_white_id = player_id p1, np_black_id = Some (player_id opp), np_result = None\<rparr>"
      let ?paired = "insert (player_id p1) (insert (player_id opp) paired)"
      from Cons.IH [of ?paired "acc @ [?q]"] obtain new where
        new: "snd (pair_loop h pool rest (?paired, acc @ [?q])) = (acc @ [?q]) @ new"
        "rematches_forced h (map player_id pool) ?paired new" by blast
      have forced: "\<not> haveMet h (player_id p1) (player_id opp) \<or>
            list_all (\<lambda>c. c = player_id p1 \<or> c \<in> paired \<or> haveMet h (player_id p1) c)
              (map player_id pool)"
        using find_opponent_rematch [OF Some]
        by (auto simp: list_all_iff havePlayed_haveMet)
      have "snd (pair_loop h pool (p1 # rest) (paired, acc)) = acc @ (?q # new)"
        using False Some new(1) by simp
      moreover have "rematches_forced h (map player_id pool) paired (?q # new)"
        using forced new(2) by simp
      ultimately show ?thesis by blast
    qed
  qed
qed

lemma odd_one_out:
  assumes d: "distinct (map player_id pool)" and e: "even (length pool)"
    and p1: "p1 \<in> set pool" and np: "player_id p1 \<notin> paired"
    and sub: "paired \<subseteq> player_id ` set pool"
    and all: "\<And>q. q \<in> set pool \<Longrightarrow> player_id q = player_id p1 \<or> player_id q \<in> paired"
  shows "odd (card paired)"
proof -
  have "paired = player_id ` set pool - {player_id p1}"
    using sub all np by auto
  moreover have "card (player_id ` set pool) = length pool"
    using d by (metis distinct_card length_map set_map)
  moreover have "player_id p1 \<in> player_id ` set pool" using p1 by simp
  ultimately have "card paired = length pool - 1" by simp
  moreover have "length pool > 0" using p1 by (cases pool) auto
  ultimately show ?thesis using e by simp
qed

lemma pair_loop_complete:
  assumes "distinct (map player_id pool)" and "even (length pool)"
    and "pool = done @ rest"
    and "player_id ` set done \<subseteq> paired" and "paired \<subseteq> player_id ` set pool"
    and "even (card paired)"
  shows "\<exists>new. pair_loop h pool rest (paired, acc) = (player_id ` set pool, acc @ new) \<and>
           distinct (participants new) \<and>
           set (participants new) = player_id ` set pool - paired \<and>
           list_all (\<lambda>q. np_black_id q \<noteq> None \<and> np_result q = None) new"
  using assms
proof (induction rest arbitrary: "done" paired acc)
  case Nil
  then have "paired = player_id ` set pool" by auto
  then show ?case by (intro exI [of _ "[]"]) simp
next
  case (Cons p1 rest)
  have split: "pool = (done @ [p1]) @ rest" using Cons.prems(3) by simp
  have p1_in: "p1 \<in> set pool" using Cons.prems(3) by simp
  have fin: "finite paired"
    using Cons.prems(5) by (rule finite_subset) simp
  show ?case
  proof (cases "player_id p1 \<in> paired")
    case True
    have "player_id ` set (done @ [p1]) \<subseteq> paired" using True Cons.prems(4) by auto
    from Cons.IH [OF Cons.prems(1,2) split this Cons.prems(5,6), of acc] True
    show ?thesis by simp
  next
    case False
    show ?thesis
    proof (cases "find_opponent h pool paired p1")
      case None
      have "odd (card paired)"
        using odd_one_out [OF Cons.prems(1,2) p1_in False Cons.prems(5)]
          find_opponent_None [OF None] by blast
      with Cons.prems(6) show ?thesis by simp
    next
      case (Some opp)
      note opp = find_opponent_Some [OF Some]
      let ?paired = "insert (player_id p1) (insert (player_id opp) paired)"
      let ?q = "\<lparr>np_white_id = player_id p1, np_black_id = Some (player_id opp), np_result = None\<rparr>"
      have a: "player_id ` set (done @ [p1]) \<subseteq> ?paired" using Cons.prems(4) by auto
      have b: "?paired \<subseteq> player_id ` set pool" using Cons.prems(5) p1_in opp by auto
      have c: "even (card ?paired)" using Cons.prems(6) fin False opp by simp
      from Cons.IH [OF Cons.prems(1,2) split a b c, of "acc @ [?q]"]
      obtain new where new:
        "pair_loop h pool rest (?paired, acc @ [?q]) = (player_id ` set pool, (acc @ [?q]) @ new)"
        "distinct (participants new)"
        "set (participants new) = player_id ` set pool - ?paired"
        "list_all (\<lambda>q. np_black_id q \<noteq> None \<and> np_result q = None) new"
        by blast
      have run: "pair_loop h pool (p1 # rest) (paired, acc) = (player_id ` set pool, acc @ (?q # new))"
        using False Some new(1) by simp
      have d: "distinct (participants (?q # new))"
        using new(2,3) opp by (simp add: participants_def)
      have s: "set (participants (?q # new)) = player_id ` set pool - paired"
        using new(3) opp False p1_in by (auto simp: participants_def)
      have l: "list_all (\<lambda>q. np_black_id q \<noteq> None \<and> np_result q = None) (?q # new)"
        using new(4) by simp
      from run d s l show ?thesis by blast
    qed
  qed
qed

lemma insert_pairings_Cons:
  "fst (insert_pairings t r (q # qs) ([], n)) =
   \<lparr>pairing_id = n, pairing_tournament_id = t, round_number = r,
     white_id = np_white_id q, black_id = np_black_id q, result = np_result q\<rparr>
   # fst (insert_pairings t r qs ([], n + 1))"
  using insert_pairings_append [of t r qs "[X]" "n + 1" for X] by simp

lemma row_seats_inserted:
  "row_seats (fst (insert_pairings t r qs ([], n))) = participants qs"
  by (induction qs arbitrary: n)
    (simp_all add: insert_pairings_Cons row_seats_def participants_def del: insert_pairings.simps(2))

lemma black_inserted:
  "map black_id (fst (insert_pairings t r qs ([], n))) = map np_black_id qs"
  by (induction qs arbitrary: n) (simp_all add: insert_pairings_Cons del: insert_pairings.simps(2))

lemma length_filter_map: "length (filter P (map f xs)) = length (filter (\<lambda>x. P (f x)) xs)"
  by (induction xs) simp_all

lemma count_black_inserted:
  "length (filter (\<lambda>p. P (black_id p)) (fst (insert_pairings t r qs ([], n)))) =
   length (filter (\<lambda>q. P (np_black_id q)) qs)"
  using length_filter_map [of P black_id "fst (insert_pairings t r qs ([], n))"]
    length_filter_map [of P np_black_id qs]
  by (simp add: black_inserted)

lemma length_participants:
  "list_all (\<lambda>q. np_black_id q \<noteq> None \<and> np_result q = None) qs \<Longrightarrow>
   length (participants qs) = 2 * length qs"
  by (induction qs) (auto simp: participants_def)

lemma all_black:
  "list_all (\<lambda>q. np_black_id q \<noteq> None \<and> np_result q = None) qs \<Longrightarrow>
   filter (\<lambda>q. np_black_id q \<noteq> None) qs = qs \<and> filter (\<lambda>q. np_black_id q = None) qs = []"
  by (induction qs) auto

lemma filter_other_length:
  assumes "distinct (map g xs)" and "b \<in> set xs"
  shows "length (filter (\<lambda>p. g p \<noteq> g b) xs) = length xs - 1"
  using assms
proof (induction xs)
  case Nil
  then show ?case by simp
next
  case (Cons x xs)
  show ?case
  proof (cases "g x = g b")
    case True
    have "g x \<notin> g ` set xs" using Cons.prems(1) by simp
    with True have "\<forall>y\<in>set xs. g y \<noteq> g b" by (metis imageI)
    then have "filter (\<lambda>p. g p \<noteq> g b) xs = xs" by (simp add: filter_id_conv)
    with True show ?thesis by simp
  next
    case False
    then have "b \<in> set xs" using Cons.prems(2) by auto
    moreover from this have "length xs > 0" by (cases xs) auto
    ultimately show ?thesis using Cons False by simp
  qed
qed

lemma select_bye_cases:
  assumes "xs \<noteq> []"
  shows "\<exists>b avail. select_bye xs = Some (b, avail) \<and> b \<in> set xs \<and>
           (avail = xs \<or> avail = sort_key points xs)"
proof (cases "sort_key points (filter (\<lambda>p. \<not> had_bye p) xs)")
  case (Cons b bs)
  then have "b \<in> set (sort_key points (filter (\<lambda>p. \<not> had_bye p) xs))" by simp
  then have "b \<in> set xs" by simp
  with Cons show ?thesis by (simp add: select_bye_def)
next
  case Nil
  show ?thesis
  proof (cases "sort_key points xs")
    case Nil
    then have "set (sort_key points xs) = {}" by simp
    with assms show ?thesis by simp
  next
    case (Cons b bs)
    then have "b \<in> set (sort_key points xs)" by simp
    then have "b \<in> set xs" by simp
    with Cons Nil show ?thesis by (simp add: select_bye_def)
  qed
qed

lemma distinct_ids_sort:
  "distinct (map player_id (sort_key f xs)) = distinct (map player_id xs)"
  by (simp add: distinct_map)

lemma planRound_complete:
  assumes d: "distinct (map player_id xs)" and n: "xs \<noteq> []"
  shows "\<exists>bye qs. planRound h xs = Some (bye, qs) \<and>
           length (filter (\<lambda>q. np_black_id q \<noteq> None) qs) = length xs div 2 \<and>
           length (filter (\<lambda>q. np_black_id q = None) qs) = (if odd (length xs) then 1 else 0) \<and>
           distinct (participants qs) \<and> set (participants qs) = player_id ` set xs"
proof (cases "odd (length xs)")
  case False
  then have e: "even (length xs)" by simp
  from pair_loop_complete [OF d e, of "[]" xs "{}" h "[]"]
  obtain new where new: "pair_loop h xs xs ({}, []) = (player_id ` set xs, new)"
    "distinct (participants new)" "set (participants new) = player_id ` set xs"
    "list_all (\<lambda>q. np_black_id q \<noteq> None \<and> np_result q = None) new"
    by auto
  have "length (participants new) = length xs"
    using new(2,3) d by (metis distinct_card length_map set_map)
  then have len: "length new = length xs div 2"
    using length_participants [OF new(4)] by simp
  have "planRound h xs = Some (None, new)"
    using False new(1) by (simp add: planRound_def)
  then show ?thesis
    using new(2,3) all_black [OF new(4)] len False by simp
next
  case True
  from select_bye_cases [OF n] obtain b avail where
    sel: "select_bye xs = Some (b, avail)" and b: "b \<in> set xs"
    and avail: "avail = xs \<or> avail = sort_key points xs" by blast
  have av_set: "set avail = set xs" and av_len: "length avail = length xs"
    and av_d: "distinct (map player_id avail)"
    using avail d by (auto simp: distinct_ids_sort)
  let ?pool = "filter (\<lambda>p. player_id p \<noteq> player_id b) avail"
  let ?bye = "\<lparr>np_white_id = player_id b, np_black_id = None, np_result = Some ''1-0''\<rparr>"
  have pd: "distinct (map player_id ?pool)" using av_d by (rule distinct_map_filter)
  have plen: "length ?pool = length xs - 1"
    using filter_other_length [OF av_d, of b] b av_set av_len by simp
  then have pe: "even (length ?pool)" using True by simp
  have pset: "player_id ` set ?pool = player_id ` set xs - {player_id b}"
    using av_set by auto
  from pair_loop_complete [OF pd pe, of "[]" ?pool "{}" h "[?bye]"]
  obtain new where new: "pair_loop h ?pool ?pool ({}, [?bye]) = (player_id ` set ?pool, ?bye # new)"
    "distinct (participants new)" "set (participants new) = player_id ` set ?pool"
    "list_all (\<lambda>q. np_black_id q \<noteq> None \<and> np_result q = None) new"
    by auto
  have "length (participants new) = length ?pool"
    using new(2,3) pd by (metis distinct_card length_map set_map)
  then have len: "length new = length xs div 2"
    using length_participants [OF new(4)] plen True by (simp add: odd_iff_mod_2_eq_one)
  have plan: "planRound h xs = Some (Some b, ?bye # new)"
    using True sel new(1) by (simp add: planRound_def)
  have dist: "distinct (participants (?bye # new))"
    using new(2,3) pset by (simp add: participants_def)
  have st: "set (participants (?bye # new)) = player_id ` set xs"
    using new(3) pset b by (auto simp: participants_def)
  show ?thesis
    using plan dist st all_black [OF new(4)] len True by simp
qed

text \<open>
  The handler of part_000, lines 207-289, on any history: with at least two players and
  distinct keys it succeeds, appends its new rows, and the rows seat every player of the
  roster exactly once, in \<open>n div 2\<close> games and, for an odd roster, one bye.
\<close>

lemma generate_pairs_everyone:
  assumes n: "2 \<le> length (roster d t)" and dist: "distinct (map player_id (players d))"
  shows "\<exists>d' new. generateNextRound collate d t = Inr d' \<and> pairings d' = pairings d @ new \<and>
           length (filter (\<lambda>p. black_id p \<noteq> None) new) = length (roster d t) div 2 \<and>
           length (filter (\<lambda>p. black_id p = None) new) = (if odd (length (roster d t)) then 1 else 0) \<and>
           distinct (row_seats new) \<and> set (row_seats new) = player_id ` set (roster d t)"
proof -
  let ?xs = "sort_key (swiss_key collate) (roster d t)"
  let ?h = "history d t"
  have "distinct (map player_id (roster d t))"
    unfolding roster_def using dist by (rule distinct_map_filter)
  then have d: "distinct (map player_id ?xs)" by (simp add: distinct_ids_sort)
  have ne: "?xs \<noteq> []" using n by (metis length_sort list.size(3) not_numeral_le_zero)
  from planRound_complete [OF d ne, of ?h]
  obtain bye qs where plan: "planRound ?h ?xs = Some (bye, qs)"
    and two: "length (filter (\<lambda>q. np_black_id q \<noteq> None) qs) = length (roster d t) div 2"
    and one: "length (filter (\<lambda>q. np_black_id q = None) qs) = (if odd (length (roster d t)) then 1 else 0)"
    and qd: "distinct (participants qs)" and qs: "set (participants qs) = player_id ` set (roster d t)"
    by auto
  let ?new = "fst (insert_pairings t (next_round ?h) qs ([], pairings_id_seq d))"
  obtain d' where gen: "generateNextRound collate d t = Inr d'"
    and prs: "pairings d' = fst (insert_pairings t (next_round ?h) qs (pairings d, pairings_id_seq d))"
    using n plan by (simp add: generateNextRound_def)
  have "pairings d' = pairings d @ ?new"
    using prs insert_pairings_append [of t "next_round ?h" qs "pairings d" "pairings_id_seq d"] by simp
  moreover have "length (filter (\<lambda>p. black_id p \<noteq> None) ?new) = length (roster d t) div 2"
    using count_black_inserted [of "\<lambda>b. b \<noteq> None"] two by simp
  moreover have "length (filter (\<lambda>p. black_id p = None) ?new) = (if odd (length (roster d t)) then 1 else 0)"
    using count_black_inserted [of "\<lambda>b. b = None"] one by simp
  moreover have "distinct (row_seats ?new)" "set (row_seats ?new) = player_id ` set (roster d t)"
    using qd qs by (simp_all add: row_seats_inserted)
  ultimately show ?thesis using gen by blast
qed

lemma five_facts:
  "2 \<le> length (roster five_db 1)" "history five_db 1 = []" "distinct (map player_id (players five_db))"
  by (simp_all add: five_db_def five_players_def roster_def history_def)

section \<open>What a generated round changes\<close>

lemma pair_loop_extends:
  "\<exists>new. snd (pair_loop h pool rest (paired, acc)) = acc @ new"
proof (induction rest arbitrary: paired acc)
  case Nil
  show ?case by simp
next
  case (Cons p1 rest)
  show ?case
  proof (cases "player_id p1 \<in> paired")
    case True
    with Cons.IH [of paired acc] show ?thesis by simp
  next
    case False
    show ?thesis
    proof (cases "find_opponent h pool paired p1")
      case None
      with False Cons.IH [of paired acc] show ?thesis by simp
    next
      case (Some opp)
      from Cons.IH [of "insert (player_id p1) (insert (player_id opp) paired)"
          "acc @ [\<lparr>np_white_id = player_id p1, np_black_id = Some (player_id opp), np_result = None\<rparr>]"]
      show ?thesis using False Some by auto
    qed
  qed
qed

lemma planRound_Some:
  assumes "planRound h xs = Some (bye, qs)"
  shows "case bye of
           None \<Rightarrow> even (length xs)
         | Some b \<Rightarrow> odd (length xs) \<and> b \<in> set xs \<and>
             (\<exists>avail. select_bye xs = Some (b, avail)) \<and>
             (\<exists>new. qs = \<lparr>np_white_id = player_id b, np_black_id = None,
                           np_result = Some ''1-0''\<rparr> # new)"
proof (cases "odd (length xs)")
  case False
  with assms show ?thesis by (auto simp: planRound_def)
next
  case True
  then have "xs \<noteq> []" by auto
  from select_bye_cases [OF this] obtain b avail where
    sel: "select_bye xs = Some (b, avail)" and b: "b \<in> set xs" by blast
  let ?pool = "filter (\<lambda>p. player_id p \<noteq> player_id b) avail"
  let ?bye = "\<lparr>np_white_id = player_id b, np_black_id = None, np_result = Some ''1-0''\<rparr>"
  from pair_loop_extends [of h ?pool ?pool "{}" "[?bye]"]
  obtain new where "snd (pair_loop h ?pool ?pool ({}, [?bye])) = ?bye # new" by auto
  with True sel have "planRound h xs = Some (Some b, ?bye # new)" by (simp add: planRound_def)
  with assms have "bye = Some b" "qs = ?bye # new" by simp_all
  with True sel b show ?thesis by simp
qed

lemma generate_effect:
  assumes "generateNextRound collate d t = Inr d'"
  shows "\<exists>bye qs. planRound (history d t) (sort_key (swiss_key collate) (roster d t)) = Some (bye, qs) \<and>
           players d' = (case bye of None \<Rightarrow> players d
                         | Some b \<Rightarrow> award_bye (player_id b) (players d)) \<and>
           pairings d' = pairings d @
              fst (insert_pairings t (next_round (history d t)) qs ([], pairings_id_seq d))"
proof -
  from assms obtain bye qs where
    plan: "planRound (history d t) (sort_key (swiss_key collate) (roster d t)) = Some (bye, qs)"
    by (auto simp: generateNextRound_def split: if_splits option.splits)
  with assms have "d' = \<lparr>players = (case bye of None \<Rightarrow> players d
                             | Some b \<Rightarrow> award_bye (player_id b) (players d)),
                 pairings = fst (insert_pairings t (next_round (history d t))
                                  qs (pairings d, pairings_id_seq d)),
                 pairings_id_seq = snd (insert_pairings t (next_round (history d t))
                                  qs (pairings d, pairings_id_seq d))\<rparr>"
    by (auto simp: generateNextRound_def split: if_splits)
  then show ?thesis
    using plan insert_pairings_append [of t "next_round (history d t)" qs "pairings d" "pairings_id_seq d"]
    by auto
qed

lemma at_most_one_key:
  "distinct (map g xs) \<Longrightarrow> length (filter (\<lambda>p. g p = v) xs) \<le> 1"
proof (induction xs)
  case Nil
  show ?case by simp
next
  case (Cons x xs)
  show ?case
  proof (cases "g x = v")
    case True
    have "g x \<notin> g ` set xs" using Cons.prems by simp
    with True have "\<forall>y\<in>set xs. g y \<noteq> v" by (metis imageI)
    then have "filter (\<lambda>p. g p = v) xs = []" by (simp add: filter_empty_conv)
    with True show ?thesis by simp
  next
    case False
    with Cons show ?thesis by simp
  qed
qed

lemma length_filter_le_mono:
  "(\<And>x. x \<in> set xs \<Longrightarrow> P x \<Longrightarrow> Q x) \<Longrightarrow> length (filter P xs) \<le> length (filter Q xs)"
  by (induction xs) auto

lemma changed_rows:
  "length (filter (\<lambda>(p, p'). p' \<noteq> p) (zip xs (map f xs))) = length (filter (\<lambda>x. f x \<noteq> x) xs)"
  by (induction xs) auto

lemma award_bye_changes:
  assumes "distinct (map player_id ps)"
  shows "length (filter (\<lambda>(p, p'). p' \<noteq> p) (zip ps (award_bye i ps))) \<le> 1"
proof -
  have "length (filter (\<lambda>(p, p'). p' \<noteq> p) (zip ps (award_bye i ps))) =
        length (filter (\<lambda>p. (if player_id p = i then p\<lparr>points := points p + 1, had_bye := True\<rparr> else p) \<noteq> p) ps)"
    unfolding award_bye_def by (rule changed_rows)
  also have "\<dots> \<le> length (filter (\<lambda>p. player_id p = i) ps)"
    by (rule length_filter_le_mono) (simp split: if_splits)
  also have "\<dots> \<le> 1" using assms by (rule at_most_one_key)
  finally show ?thesis .
qed

section \<open>The choice of the bye\<close>

lemma hd_sort_key:
  assumes "sort_key f xs = b # bs"
  shows "b \<in> set xs" and "\<forall>q\<in>set xs. f b \<le> f q"
    and "\<exists>cs. filter (\<lambda>y. f y = f b) xs = b # cs"
proof -
  have s: "set xs = set (b # bs)" using assms by (metis set_sort)
  then show "b \<in> set xs" by simp
  have "sorted (map f (b # bs))" using assms by (metis sorted_sort_key)
  then show "\<forall>q\<in>set xs. f b \<le> f q" using s by auto
  have "filter (\<lambda>y. f y = f b) xs = filter (\<lambda>y. f y = f b) (b # bs)"
    using assms sort_key_stable [of f "f b" xs] by simp
  then show "\<exists>cs. filter (\<lambda>y. f y = f b) xs = b # cs" by simp
qed

lemma first_of_sorted:
  assumes "sorted (map g xs)" and "filter P xs = b # bs" and "q \<in> set xs" and "P q"
  shows "g b \<le> g q"
proof -
  have "sorted (map g (filter P xs))" using assms(1) by (rule sorted_filter)
  moreover have "q \<in> set (filter P xs)" using assms(3,4) by simp
  ultimately show ?thesis using assms(2) by auto
qed

lemma swiss_key_tie:
  "swiss_key collate b \<le> swiss_key collate q \<Longrightarrow> points q = points b \<Longrightarrow>
   collate (name b) \<le> collate (name q)"
  by (simp add: swiss_key_def less_eq_prod_def)

lemma select_bye_choice:
  assumes srt: "sorted (map (swiss_key collate) xs)" and sel: "select_bye xs = Some (b, avail)"
  shows "if list_ex (\<lambda>q. \<not> had_bye q) xs
         then \<not> had_bye b \<and>
              (\<forall>q\<in>set xs. \<not> had_bye q \<longrightarrow> points b \<le> points q \<and>
                 (points q = points b \<longrightarrow> collate (name b) \<le> collate (name q)))
         else (\<forall>q\<in>set xs. points b \<le> points q \<and>
                 (points q = points b \<longrightarrow> collate (name b) \<le> collate (name q)))"
proof (cases "sort_key points (filter (\<lambda>p. \<not> had_bye p) xs)")
  case (Cons c cs)
  with sel have bc: "c = b" by (simp add: select_bye_def)
  let ?ys = "filter (\<lambda>p. \<not> had_bye p) xs"
  note h = hd_sort_key [OF Cons [unfolded bc]]
  from h(3) obtain es where "filter (\<lambda>y. points y = points b) ?ys = b # es" by blast
  then have f: "filter (\<lambda>y. \<not> had_bye y \<and> points y = points b) xs = b # es" by simp
  have ex: "list_ex (\<lambda>q. \<not> had_bye q) xs" using h(1) by (auto simp: list_ex_iff)
  have nb: "\<not> had_bye b" using h(1) by simp
  have "points b \<le> points q \<and> (points q = points b \<longrightarrow> collate (name b) \<le> collate (name q))"
    if "q \<in> set xs" "\<not> had_bye q" for q
  proof
    show "points b \<le> points q" using h(2) that by simp
    show "points q = points b \<longrightarrow> collate (name b) \<le> collate (name q)"
      using first_of_sorted [OF srt f that(1)] that(2) swiss_key_tie by blast
  qed
  with ex nb show ?thesis by simp
next
  case Nil
  then have "set (sort_key points (filter (\<lambda>p. \<not> had_bye p) xs)) = {}" by simp
  then have all: "\<forall>q\<in>set xs. had_bye q" by (auto simp: filter_empty_conv)
  then have nex: "\<not> list_ex (\<lambda>q. \<not> had_bye q) xs" by (simp add: list_ex_iff)
  from sel Nil obtain bs where sk: "sort_key points xs = b # bs"
    by (auto simp: select_bye_def split: list.splits)
  note h = hd_sort_key [OF sk]
  from h(3) obtain es where f: "filter (\<lambda>y. points y = points b) xs = b # es" by blast
  have "points b \<le> points q \<and> (points q = points b \<longrightarrow> collate (name b) \<le> collate (name q))"
    if "q \<in> set xs" for q
  proof
    show "points b \<le> points q" using h(2) that by simp
    show "points q = points b \<longrightarrow> collate (name b) \<le> collate (name q)"
      using first_of_sorted [OF srt f that] swiss_key_tie by blast
  qed
  with nex show ?thesis by simp
qed

text \<open>
  What the handler of part_000, lines 207-289, does with an odd roster: the bye goes to a
  player with the fewest points among those without a bye (among all, when all have had
  one), and of the candidates that tie on points to the one the canonical order lists
  first.
\<close>

lemma router_bye_choice:
  assumes "odd (length (roster d t))" and "2 \<le> length (roster d t)"
  shows "\<exists>b d' others. generateNextRound collate d t = Inr d' \<and> b \<in> set (roster d t) \<and>
     players d' = award_bye (player_id b) (players d) \<and>
     pairings d' = pairings d @
       \<lparr>pairing_id = pairings_id_seq d, pairing_tournament_id = t,
        round_number = next_round (history d t), white_id = player_id b, black_id = None,
        result = Some ''1-0''\<rparr> # others \<and>
     (if list_ex (\<lambda>q. \<not> had_bye q) (roster d t)
      then \<not> had_bye b \<and>
           (\<forall>q\<in>set (roster d t). \<not> had_bye q \<longrightarrow> points b \<le> points q \<and>
              (points q = points b \<longrightarrow> collate (name b) \<le> collate (name q)))
      else (\<forall>q\<in>set (roster d t). points b \<le> points q \<and>
              (points q = points b \<longrightarrow> collate (name b) \<le> collate (name q))))"
proof -
  let ?xs = "sort_key (swiss_key collate) (roster d t)"
  have ne: "?xs \<noteq> []" using assms(2) by (metis length_sort list.size(3) not_numeral_le_zero)
  have od: "odd (length ?xs)" using assms(1) by simp
  from select_bye_cases [OF ne] obtain b avail where sel: "select_bye ?xs = Some (b, avail)"
    by blast
  then obtain qs where plan: "planRound (history d t) ?xs = Some (Some b, qs)"
    using od by (simp add: planRound_def)
  from planRound_Some [OF plan] obtain new where b: "b \<in> set ?xs"
    and qs: "qs = \<lparr>np_white_id = player_id b, np_black_id = None, np_result = Some ''1-0''\<rparr> # new"
    by auto
  obtain d' where gen: "generateNextRound collate d t = Inr d'"
    using assms(2) plan by (simp add: generateNextRound_def)
  from generate_effect [OF gen] plan qs
  have pl: "players d' = award_bye (player_id b) (players d)"
    and pr: "pairings d' = pairings d @
       \<lparr>pairing_id = pairings_id_seq d, pairing_tournament_id = t,
        round_number = next_round (history d t), white_id = player_id b, black_id = None,
        result = Some ''1-0''\<rparr> #
       fst (insert_pairings t (next_round (history d t)) new ([], pairings_id_seq d + 1))"
    by (simp_all add: insert_pairings_Cons del: insert_pairings.simps(2))
  have srt: "sorted (map (swiss_key collate) ?xs)" by (rule sorted_sort_key)
  have ch: "if list_ex (\<lambda>q. \<not> had_bye q) (roster d t)
      then \<not> had_bye b \<and>
           (\<forall>q\<in>set (roster d t). \<not> had_bye q \<longrightarrow> points b \<le> points q \<and>
              (points q = points b \<longrightarrow> collate (name b) \<le> collate (name q)))
      else (\<forall>q\<in>set (roster d t). points b \<le> points q \<and>
              (points q = points b \<longrightarrow> collate (name b) \<le> collate (name q)))"
    using select_bye_choice [OF srt sel] by (simp add: list_ex_iff)
  from gen b pl pr ch show ?thesis by auto
qed

text \<open>
  The generator of part_000, lines 562-618, takes the last player of the canonical order
  without a bye, and the last player when all have had one: on the example, P5.
\<close>

lemma find_rev_last:
  "find P (rev xs) = (if filter P xs = [] then None else Some (last (filter P xs)))"
proof (induction xs rule: rev_induct)
  case Nil
  show ?case by simp
next
  case (snoc x xs)
  then show ?case by simp
qed

lemma select_bye_server_choice:
  assumes "xs \<noteq> []"
  shows "select_bye_server xs =
           Some (if list_ex (\<lambda>p. \<not> had_bye p) xs then last (filter (\<lambda>p. \<not> had_bye p) xs)
                 else last xs)"
  using assms
  by (auto simp: select_bye_server_def find_rev_last list_ex_iff filter_empty_conv)

lemma server_bye_example:
  "generateNextRound_server code_units five_db 1 =
     Inr \<lparr>players =
        [\<lparr>player_id = 1, tournament_id = 1, name = ''P1'', points = 0, had_bye = False\<rparr>,
         \<lparr>player_id = 2, tournament_id = 1, name = ''P2'', points = 0, had_bye = False\<rparr>,
         \<lparr>player_id = 3, tournament_id = 1, name = ''P3'', points = 0, had_bye = False\<rparr>,
         \<lparr>player_id = 4, tournament_id = 1, name = ''P4'', points = 0, had_bye = False\<rparr>,
         \<lparr>player_id = 5, tournament_id = 1, name = ''P5'', points = 1, had_bye = True\<rparr>],
      pairings =
        [\<lparr>pairing_id = 1, pairing_tournament_id = 1, round_number = 1, white_id = 5,
           black_id = None, result = Some ''1-0''\<rparr>,
         \<lparr>pairing_id = 2, pairing_tournament_id = 1, round_number = 1, white_id = 1,
           black_id = Some 2, result = None\<rparr>,
         \<lparr>pairing_id = 3, pairing_tournament_id = 1, round_number = 1, white_id = 3,
           black_id = Some 4, result = None\<rparr>],
      pairings_id_seq = 4\<rparr>"
  by (simp add: generateNextRound_server_def five_db_def five_players_def roster_def
      history_def swiss_key_def code_units_def select_bye_server_def next_round_def award_bye_def)

section \<open>Standings: the source against the specification's wording\<close>

lemma is_half_iff: "is_half x \<longleftrightarrow> (\<exists>k::int. x = of_int k / 2)"
proof
  assume "is_half x"
  then have "x = of_int \<lfloor>2 * x\<rfloor> / 2" unfolding is_half_def by linarith
  then show "\<exists>k::int. x = of_int k / 2" ..
next
  assume "\<exists>k::int. x = of_int k / 2"
  then obtain k :: int where "x = of_int k / 2" ..
  then have e: "2 * x = of_int k" by simp
  show "is_half x" unfolding is_half_def e by (simp only: floor_of_int)
qed

lemma is_half_0: "is_half 0"
  by (simp add: is_half_def)

lemma is_half_add: "is_half x \<Longrightarrow> is_half y \<Longrightarrow> is_half (x + y)"
proof -
  assume "is_half x" "is_half y"
  then obtain k l :: int where "x = of_int k / 2" "y = of_int l / 2"
    by (auto simp: is_half_iff)
  then have "x + y = of_int (k + l) / 2" by (simp add: add_divide_distrib)
  then show ?thesis unfolding is_half_iff by blast
qed

lemma toFixed1_half:
  assumes "is_half x"
  shows "toFixed1 x = x"
proof -
  from assms obtain k :: int where x: "x = of_int k / 2" by (auto simp: is_half_iff)
  have a: "x * 10 + 1 / 2 = of_int (5 * k) + 1 / 2" using x by simp
  have b: "(- x) * 10 + 1 / 2 = of_int (- 5 * k) + 1 / 2" using x by simp
  have fa: "\<lfloor>x * 10 + 1 / 2\<rfloor> = 5 * k" unfolding a by linarith
  have fb: "\<lfloor>(- x) * 10 + 1 / 2\<rfloor> = - 5 * k" unfolding b by linarith
  show ?thesis
    unfolding toFixed1_def fa fb using x by simp
qed

lemma opponentIds_keyed:
  assumes "keyed prs"
  shows "opponentIds prs player = map Some (opponents_faced prs (player_id player))"
  using assms
  by (induction prs) (auto simp: keyed_def opponentIds_def opponents_faced_def truthy_id_def split: option.splits)

lemma foldl_sum:
  "foldl (\<lambda>sum x. sum + g x) a xs = a + sum_list (map g xs)"
  by (induction xs arbitrary: a) (simp_all add: add.assoc)

lemma buchholz_sum:
  "buchholz ps (map Some ids) = sum_list (map (current_points ps) ids)"
  unfolding buchholz_def foldl_sum
  by (induction ids) (simp_all add: current_points_def)

lemma current_points_half:
  assumes "list_all (\<lambda>p. is_half (points p)) ps"
  shows "is_half (current_points ps i)"
proof (cases "find (\<lambda>p. player_id p = i) ps")
  case None
  then show ?thesis by (simp add: current_points_def is_half_0)
next
  case (Some q)
  then have "q \<in> set ps" by (auto simp: find_Some_iff)
  with assms Some show ?thesis by (simp add: current_points_def list_all_iff)
qed

lemma sum_list_half:
  "(\<And>x. x \<in> set xs \<Longrightarrow> is_half (g x)) \<Longrightarrow> is_half (sum_list (map g xs))"
  by (induction xs) (simp_all add: is_half_0 is_half_add)

lemma standing_of_spec:
  assumes "list_all (\<lambda>p. is_half (points p)) ps" and "keyed prs" and "is_half (points player)"
  shows "standing_of ps prs player =
     \<lparr>Nombre = name player, Puntos = points player,
      Buchholz = tiebreak_spec ps prs (player_id player),
      Partidas = length (opponents_faced prs (player_id player))\<rparr>"
proof -
  have "is_half (tiebreak_spec ps prs (player_id player))"
    unfolding tiebreak_spec_def by (rule sum_list_half) (rule current_points_half [OF assms(1)])
  then show ?thesis
    using assms(3)
    by (simp add: standing_of_def opponentIds_keyed [OF assms(2)] buchholz_sum toFixed1_half
        tiebreak_spec_def)
qed

lemma games_count:
  "length (opponents_faced prs i) =
   length (filter (\<lambda>p. (white_id p = i \<and> black_id p \<noteq> None) \<or> black_id p = Some i) prs)"
  by (induction prs) (auto simp: opponents_faced_def split: option.splits)

lemma bye_not_counted:
  assumes "black_id q = None"
  shows "opponentIds (prs @ q # prs') player = opponentIds (prs @ prs') player"
  using assms by (simp add: opponentIds_def truthy_id_def)

lemma map_cong_set: "(\<And>x. x \<in> set xs \<Longrightarrow> f x = g x) \<Longrightarrow> map f xs = map g xs"
  by simp

lemma standings_rows:
  assumes "list_all (\<lambda>p. is_half (points p)) (roster d t)" and "keyed (history d t)"
  shows "computeStandings d t =
         sort_key standing_key (map (standing_spec (roster d t) (history d t)) (roster d t))"
proof -
  have "map (standing_of (roster d t) (history d t)) (roster d t) =
        map (standing_spec (roster d t) (history d t)) (roster d t)"
  proof (rule map_cong_set)
    fix player assume "player \<in> set (roster d t)"
    then have "is_half (points player)" using assms(1) by (simp add: list_all_iff)
    from standing_of_spec [OF assms this]
    show "standing_of (roster d t) (history d t) player =
          standing_spec (roster d t) (history d t) player"
      by (simp add: standing_spec_def)
  qed
  then show ?thesis unfolding computeStandings_def by (rule arg_cong)
qed

lemma standing_key_le:
  "standing_key a \<le> standing_key b \<longleftrightarrow>
   Puntos b < Puntos a \<or> (Puntos b = Puntos a \<and> Buchholz b \<le> Buchholz a)"
  by (auto simp: standing_key_def less_eq_prod_def)

section \<open>The examples, evaluated\<close>

lemma five_generated: "generateNextRound code_units five_db 1 = Inr round1_db"
  by (simp add: generateNextRound_def five_db_def five_players_def round1_db_def roster_def
      history_def swiss_key_def code_units_def planRound_def select_bye_def find_opponent_def
      havePlayed_def next_round_def award_bye_def)


section \<open>Result update: re-entrancy and inverses\<close>

text \<open>
  Claim C1. Take a pairing that the handler finds under its id, with a black player and no
  result yet, and two permitted results A and B. Setting A and then B succeeds and leaves
  the database, hence the points of both players and of everybody else, exactly as a
  single call with B on the unset pairing does, whatever the points were before.
\<close>

theorem setResult_twice:
  assumes "find (\<lambda>p. pairing_id p = i) (pairings d) = Some p"
    and "black_id p = Some b"
    and "result p = None"
    and "is_valid_result A" and "is_valid_result B"
  shows "\<exists>d1 d2. setResult d i A = Inr d1 \<and> setResult d1 i B = Inr d2 \<and>
                  setResult d i B = Inr d2"
proof -
  let ?d1 = "d\<lparr>players := applyResult (players d) p A, pairings := store_result A i (pairings d)\<rparr>"
  let ?d2 = "d\<lparr>players := applyResult (players d) p B, pairings := store_result B i (pairings d)\<rparr>"
  have first: "setResult d i A = Inr ?d1"
    using assms(1,3,4) by (simp add: setResult_def truthy_def)
  have found: "find (\<lambda>p. pairing_id p = i) (pairings ?d1) = Some (p\<lparr>result := A\<rparr>)"
    using assms(1) by (simp add: find_store_result)
  have undone: "reverseResult (applyResult (players d) p A) (p\<lparr>result := A\<rparr>) A = players d"
    using reverse_apply [of "players d" p A] by (simp add: reverseResult_def)
  have second: "setResult ?d1 i B = Inr ?d2"
    using found assms(5) truthy_valid [OF assms(4)] undone
    by (simp add: setResult_def store_result_twice applyResult_def)
  have single: "setResult d i B = Inr ?d2"
    using assms(1,3,5) by (simp add: setResult_def truthy_def)
  from first second single show ?thesis by blast
qed

theorem setResult_twice_witness:
  "find (\<lambda>p. pairing_id p = 1) (pairings (game_db None 0 0)) = Some (game None) \<and>
   black_id (game None) = Some 2 \<and> result (game None) = None \<and>
   is_valid_result (Some ''0.5-0.5'') \<and> is_valid_result (Some ''1-0'') \<and>
   setResult (game_db None 0 0) 1 (Some ''0.5-0.5'') = Inr (game_db (Some ''0.5-0.5'') (1 / 2) (1 / 2)) \<and>
   setResult (game_db (Some ''0.5-0.5'') (1 / 2) (1 / 2)) 1 (Some ''1-0'') = Inr (game_db (Some ''1-0'') 1 0) \<and>
   setResult (game_db None 0 0) 1 (Some ''1-0'') = Inr (game_db (Some ''1-0'') 1 0)"
proof -
  have 1: "find (\<lambda>p. pairing_id p = 1) (pairings (game_db None 0 0)) = Some (game None)"
    by (simp add: game_db_def game_def)
  have 2: "black_id (game None) = Some 2" and 3: "result (game None) = None"
    by (simp_all add: game_def)
  have 4: "is_valid_result (Some ''0.5-0.5'')" and 5: "is_valid_result (Some ''1-0'')"
    by (simp_all add: is_valid_result_def)
  have first: "setResult (game_db None 0 0) 1 (Some ''0.5-0.5'') =
               Inr (game_db (Some ''0.5-0.5'') (1 / 2) (1 / 2))"
    by (simp add: setResult_def game_db_def game_def is_valid_result_def truthy_def
        applyResult_def add_points_def whitePoints_def blackPoints_def store_result_def)
  from setResult_twice [OF 1 2 3 4 5] first
  have "setResult (game_db (Some ''0.5-0.5'') (1 / 2) (1 / 2)) 1 (Some ''1-0'') =
        setResult (game_db None 0 0) 1 (Some ''1-0'')"
    by auto
  moreover have "setResult (game_db None 0 0) 1 (Some ''1-0'') = Inr (game_db (Some ''1-0'') 1 0)"
    by (simp add: setResult_def game_db_def game_def is_valid_result_def truthy_def
        applyResult_def add_points_def whitePoints_def blackPoints_def store_result_def)
  ultimately show ?thesis using 1 2 3 4 5 first by simp
qed

text \<open>
  Claim C2. For every pairing, with or without a black player, and every result r,
  the three permitted ones among them: reversing r and then applying r leaves the whole
  players table, hence the points of every player, as it was.
\<close>

theorem reverse_then_apply: "applyResult (reverseResult ps p r) p r = ps"
  unfolding reverseResult_def applyResult_def sub_points_def add_points_def
  by (simp add: o_def map_idI)



section \<open>Round generation\<close>

text \<open>
  Claim C3. For a tournament with n players, n at least 2, and no pairing so far (keys of
  table players distinct, as a primary key is), the handler succeeds and appends exactly
  n div 2 pairings with a black player, plus exactly one pairing without a black player if
  n is odd and none if n is even; every player of the roster is seated in exactly one of
  the new pairings.
\<close>

theorem first_round_pairs_everyone:
  assumes "2 \<le> length (roster d t)" and "history d t = []"
    and "distinct (map player_id (players d))"
  shows "\<exists>d' new. generateNextRound collate d t = Inr d' \<and> pairings d' = pairings d @ new \<and>
           length (filter (\<lambda>p. black_id p \<noteq> None) new) = length (roster d t) div 2 \<and>
           length (filter (\<lambda>p. black_id p = None) new) = (if odd (length (roster d t)) then 1 else 0) \<and>
           distinct (row_seats new) \<and> set (row_seats new) = player_id ` set (roster d t)"
  using generate_pairs_everyone [OF assms(1,3)] .

theorem first_round_pairs_everyone_witness:
  "2 \<le> length (roster five_db 1) \<and> history five_db 1 = [] \<and>
   distinct (map player_id (players five_db)) \<and>
   (\<exists>d' new. generateNextRound code_units five_db 1 = Inr d' \<and>
      pairings d' = pairings five_db @ new \<and>
      length (filter (\<lambda>p. black_id p \<noteq> None) new) = length (roster five_db 1) div 2 \<and>
      length (filter (\<lambda>p. black_id p = None) new) =
        (if odd (length (roster five_db 1)) then 1 else 0) \<and>
      distinct (row_seats new) \<and> set (row_seats new) = player_id ` set (roster five_db 1))"
  using first_round_pairs_everyone [OF five_facts, of code_units] five_facts by blast

text \<open>
  Claim C4. The bye is to go to the lowest-ranked player of the canonical order among the
  players without a bye, and to the lowest-ranked player when all have had one; of five
  players P1 to P5 without points and without history, P5 is to get it. The generators of
  part_000, line 584, and of api.js, lines 465-474, do so (lemmas
  \<open>select_bye_server_choice\<close> and \<open>server_bye_example\<close>). The handler of part_000, lines
  207-289, sorts the candidates by ascending points with a stable sort and takes element 0
  (lines 233-236), which hands a tie on points to the first name: on the example it gives
  the bye and the point to P1, and P5 plays P4 and stays at 0.
\<close>

theorem router_bye_goes_to_first_name:
  "generateNextRound code_units five_db 1 = Inr round1_db \<and>
   map (\<lambda>p. (name p, points p, had_bye p)) (players round1_db) =
     [(''P1'', 1, True), (''P2'', 0, False), (''P3'', 0, False), (''P4'', 0, False),
      (''P5'', 0, False)] \<and>
   map (\<lambda>q. (white_id q, black_id q, result q)) (pairings round1_db) =
     [(1, None, Some ''1-0''), (2, Some 3, None), (4, Some 5, None)]"
  using five_generated by (simp add: round1_db_def)

text \<open>
  Claim C5. The claim holds for the handler of part_000, lines 207-289 (lemmas
  \<open>pair_loop_rematches\<close> and \<open>generate_pairs_everyone\<close>), whose loop falls back to the
  first unpaired player. The handler of part_000, lines 562-618, has no such fallback: for
  two players who have played each other it answers 201, inserts no pairing and leaves the
  database as it was, so both players of an even pool stay unpaired.
\<close>

theorem server_leaves_pool_unpaired:
  "generateNextRound_server code_units (game_db (Some ''1-0'') 1 0) 1 =
     Inr (game_db (Some ''1-0'') 1 0)"
  by (simp add: generateNextRound_server_def game_db_def game_def roster_def history_def
      swiss_key_def code_units_def select_bye_server_def next_round_def)

lemma router_pairs_rematch:
  "generateNextRound code_units (game_db (Some ''1-0'') 1 0) 1 =
     Inr ((game_db (Some ''1-0'') 1 0)
       \<lparr>pairings := [game (Some ''1-0''),
          \<lparr>pairing_id = 2, pairing_tournament_id = 1, round_number = 2, white_id = 1,
           black_id = Some 2, result = None\<rparr>],
        pairings_id_seq := 3\<rparr>)"
  by (simp add: generateNextRound_def game_db_def game_def roster_def history_def
      swiss_key_def code_units_def planRound_def find_opponent_def havePlayed_def next_round_def)

section \<open>Result update: byes and values outside the enumeration\<close>

text \<open>
  Claim C6, as amended. No handler rejects a bye: for a pairing without a black player that
  the handler finds under its id, and every permitted result r, the call succeeds; the
  white player's points lose what the stored result gave white and gain what r gives
  white, no other player's points change, and r is stored.
\<close>

theorem setResult_on_bye:
  assumes "find (\<lambda>p. pairing_id p = i) (pairings d) = Some p"
    and "black_id p = None"
    and "is_valid_result r"
  shows "setResult d i r =
     Inr (d\<lparr>players :=
               map (\<lambda>q. if player_id q = white_id p
                         then q\<lparr>points := points q
                                  - (if truthy (result p) then whitePoints (result p) else 0)
                                  + whitePoints r\<rparr>
                         else q) (players d),
             pairings := store_result r i (pairings d)\<rparr>)"
  using assms
  by (simp add: setResult_def applyResult_def reverseResult_def add_points_def sub_points_def o_def)

theorem setResult_on_bye_witness:
  "find (\<lambda>p. pairing_id p = 1) (pairings round1_db) =
     Some \<lparr>pairing_id = 1, pairing_tournament_id = 1, round_number = 1, white_id = 1,
           black_id = None, result = Some ''1-0''\<rparr> \<and>
   is_valid_result (Some ''0.5-0.5'') \<and>
   setResult round1_db 1 (Some ''0.5-0.5'') =
     Inr (round1_db\<lparr>players :=
            map (\<lambda>q. if player_id q = 1
                      then q\<lparr>points := points q
                               - (if truthy (Some ''1-0'') then whitePoints (Some ''1-0'') else 0)
                               + whitePoints (Some ''0.5-0.5'')\<rparr>
                      else q) (players round1_db),
          pairings := store_result (Some ''0.5-0.5'') 1 (pairings round1_db)\<rparr>)"
proof -
  let ?bye = "\<lparr>pairing_id = 1, pairing_tournament_id = 1, round_number = 1, white_id = 1,
           black_id = None, result = Some ''1-0''\<rparr>"
  have 1: "find (\<lambda>p. pairing_id p = 1) (pairings round1_db) = Some ?bye"
    by (simp add: round1_db_def)
  have 2: "black_id ?bye = None" by simp
  have 3: "is_valid_result (Some ''0.5-0.5'')" by (simp add: is_valid_result_def)
  from setResult_on_bye [OF 1 2 3] 1 3 show ?thesis by simp
qed

text \<open>
  The claim as stated fails: on the bye of P1 in the example, setting 0-1 is accepted, P1
  loses the point of the bye and the stored result becomes 0-1.
\<close>

theorem bye_result_counterexample:
  "setResult round1_db 1 (Some ''0-1'') =
     Inr \<lparr>players =
        [\<lparr>player_id = 1, tournament_id = 1, name = ''P1'', points = 0, had_bye = True\<rparr>,
         \<lparr>player_id = 2, tournament_id = 1, name = ''P2'', points = 0, had_bye = False\<rparr>,
         \<lparr>player_id = 3, tournament_id = 1, name = ''P3'', points = 0, had_bye = False\<rparr>,
         \<lparr>player_id = 4, tournament_id = 1, name = ''P4'', points = 0, had_bye = False\<rparr>,
         \<lparr>player_id = 5, tournament_id = 1, name = ''P5'', points = 0, had_bye = False\<rparr>],
      pairings =
        [\<lparr>pairing_id = 1, pairing_tournament_id = 1, round_number = 1, white_id = 1,
           black_id = None, result = Some ''0-1''\<rparr>,
         \<lparr>pairing_id = 2, pairing_tournament_id = 1, round_number = 1, white_id = 2,
           black_id = Some 3, result = None\<rparr>,
         \<lparr>pairing_id = 3, pairing_tournament_id = 1, round_number = 1, white_id = 4,
           black_id = Some 5, result = None\<rparr>],
      pairings_id_seq = 4\<rparr>"
  by (simp add: setResult_def round1_db_def is_valid_result_def truthy_def reverseResult_def
      applyResult_def add_points_def sub_points_def whitePoints_def blackPoints_def
      store_result_def)

text \<open>
  Claim C7. The handler of part_000, lines 291-339, rejects every value outside the three
  permitted strings before it touches the database (lemma \<open>setResult_rejects_invalid\<close>).
  The handler of api.js, lines 530-572, has no such check. After Ana beat Ben (1-0 stored,
  Ana 1 point), a request without a result, and one with the result 2-0, are both answered
  with success: Ana's point is taken back and the stored result is overwritten.
\<close>

theorem api_accepts_invalid_result:
  "setResult_api (game_db (Some ''1-0'') 1 0) 1 None = Inr (game_db None 0 0) \<and>
   setResult_api (game_db (Some ''1-0'') 1 0) 1 (Some ''2-0'') = Inr (game_db (Some ''2-0'') 0 0)"
  by (simp add: setResult_api_def game_db_def game_def truthy_def reverseResult_api_def
      applyResult_api_def add_points_def sub_points_def store_result_def)

section \<open>Standings\<close>

text \<open>
  Claim C8, as amended. When the points of the roster are multiples of one half and no
  pairing holds the key 0, the standings hold one row per roster player, with the player's
  points, the sum of the current points of the opponents faced as tiebreak (a bye adds
  nothing) and the number of those opponents; the rows are ordered by points descending,
  then tiebreak descending; rows that tie on both keep the order of the roster as the
  database returned it. The name takes no part in the order.
\<close>

theorem standings_tiebreak_and_order:
  assumes "list_all (\<lambda>p. is_half (points p)) (roster d t)" and "keyed (history d t)"
  shows "length (computeStandings d t) = length (roster d t) \<and>
         set (computeStandings d t) = standing_spec (roster d t) (history d t) ` set (roster d t) \<and>
         sorted_wrt (\<lambda>a b. Puntos b < Puntos a \<or> (Puntos b = Puntos a \<and> Buchholz b \<le> Buchholz a))
           (computeStandings d t) \<and>
         (\<forall>k. filter (\<lambda>s. standing_key s = k) (computeStandings d t) =
              filter (\<lambda>s. standing_key s = k)
                (map (standing_spec (roster d t) (history d t)) (roster d t)))"
proof -
  note rows = standings_rows [OF assms]
  have "sorted (map standing_key (computeStandings d t))"
    unfolding computeStandings_def by (rule sorted_sort_key)
  then have "sorted_wrt (\<lambda>a b. standing_key a \<le> standing_key b) (computeStandings d t)"
    by (simp add: sorted_map)
  then have srt: "sorted_wrt (\<lambda>a b. Puntos b < Puntos a \<or> (Puntos b = Puntos a \<and> Buchholz b \<le> Buchholz a))
           (computeStandings d t)"
    by (simp add: standing_key_le)
  have stab: "filter (\<lambda>s. standing_key s = k) (computeStandings d t) =
              filter (\<lambda>s. standing_key s = k)
                (map (standing_spec (roster d t) (history d t)) (roster d t))" for k
    unfolding rows by (rule sort_key_stable)
  from srt stab show ?thesis by (simp add: rows)
qed

lemma draw_facts:
  "list_all (\<lambda>p. is_half (points p)) (roster draw_db 1)" "keyed (history draw_db 1)"
  by (simp_all add: draw_db_def roster_def history_def is_half_def keyed_def)

theorem standings_tiebreak_and_order_witness:
  "list_all (\<lambda>p. is_half (points p)) (roster draw_db 1) \<and> keyed (history draw_db 1) \<and>
   length (computeStandings draw_db 1) = length (roster draw_db 1) \<and>
   set (computeStandings draw_db 1) =
     standing_spec (roster draw_db 1) (history draw_db 1) ` set (roster draw_db 1) \<and>
   sorted_wrt (\<lambda>a b. Puntos b < Puntos a \<or> (Puntos b = Puntos a \<and> Buchholz b \<le> Buchholz a))
     (computeStandings draw_db 1) \<and>
   filter (\<lambda>s. standing_key s = (- (1 / 2), - (1 / 2))) (computeStandings draw_db 1) =
     filter (\<lambda>s. standing_key s = (- (1 / 2), - (1 / 2)))
       (map (standing_spec (roster draw_db 1) (history draw_db 1)) (roster draw_db 1))"
  using standings_tiebreak_and_order [OF draw_facts] draw_facts by blast

text \<open>
  The claim as stated fails: Zoe and Amy drew their game, so they tie on points and on
  tiebreak, and the standings list Zoe, stored first, before Amy.
\<close>

theorem standings_name_order_counterexample:
  "computeStandings draw_db 1 =
     [\<lparr>Nombre = ''Zoe'', Puntos = 1 / 2, Buchholz = 1 / 2, Partidas = 1\<rparr>,
      \<lparr>Nombre = ''Amy'', Puntos = 1 / 2, Buchholz = 1 / 2, Partidas = 1\<rparr>]"
  by code_simp

section \<open>What round generation leaves alone\<close>

text \<open>
  Claim C9. Whenever the handler succeeds (keys of table players distinct): table players
  keeps its length, its keys and its names; at most one row of it differs afterwards, and
  none when the roster is even; a row that differs belongs to the roster, has gained
  exactly one point and the bye flag, and is the white player of a new pairing without a
  black player; every pairing that existed before is still there, unchanged, in front of
  the new ones.
\<close>

theorem generate_frame:
  assumes gen: "generateNextRound collate d t = Inr d'"
    and dist: "distinct (map player_id (players d))"
  shows "length (players d') = length (players d) \<and>
         map name (players d') = map name (players d) \<and>
         map player_id (players d') = map player_id (players d) \<and>
         length (filter (\<lambda>(p, p'). p' \<noteq> p) (zip (players d) (players d')))
           \<le> (if odd (length (roster d t)) then 1 else 0) \<and>
         (\<forall>(p, p') \<in> set (zip (players d) (players d')). p' \<noteq> p \<longrightarrow>
            p \<in> set (roster d t) \<and> p' = p\<lparr>points := points p + 1, had_bye := True\<rparr> \<and>
            (\<exists>q \<in> set (drop (length (pairings d)) (pairings d')).
               white_id q = player_id p \<and> black_id q = None)) \<and>
         take (length (pairings d)) (pairings d') = pairings d"
proof -
  let ?xs = "sort_key (swiss_key collate) (roster d t)"
  from generate_effect [OF gen] obtain bye qs where
    plan: "planRound (history d t) ?xs = Some (bye, qs)"
    and pl: "players d' = (case bye of None \<Rightarrow> players d
                           | Some b \<Rightarrow> award_bye (player_id b) (players d))"
    and pr: "pairings d' = pairings d @
              fst (insert_pairings t (next_round (history d t)) qs ([], pairings_id_seq d))"
    by blast
  note shape = planRound_Some [OF plan]
  show ?thesis
  proof (cases bye)
    case None
    with shape pl pr show ?thesis by (simp add: zip_same_conv_map filter_empty_conv)
  next
    case (Some b)
    with shape obtain new where odd: "odd (length (roster d t))" and b: "b \<in> set (roster d t)"
      and qs: "qs = \<lparr>np_white_id = player_id b, np_black_id = None, np_result = Some ''1-0''\<rparr> # new"
      by auto
    have pl': "players d' = award_bye (player_id b) (players d)" using pl Some by simp
    have b': "b \<in> set (players d)" using b by (simp add: roster_def)
    have same: "p = b" if "p \<in> set (players d)" "player_id p = player_id b" for p
      using that b' dist by (meson distinct_map inj_onD)
    have row: "\<exists>q \<in> set (drop (length (pairings d)) (pairings d')).
               white_id q = player_id b \<and> black_id q = None"
      using pr qs by (simp add: insert_pairings_Cons del: insert_pairings.simps(2))
    have changed: "\<forall>(p, p') \<in> set (zip (players d) (players d')). p' \<noteq> p \<longrightarrow>
            p \<in> set (roster d t) \<and> p' = p\<lparr>points := points p + 1, had_bye := True\<rparr> \<and>
            (\<exists>q \<in> set (drop (length (pairings d)) (pairings d')).
               white_id q = player_id p \<and> black_id q = None)"
    proof (clarify, intro conjI)
      fix p p' assume z: "(p, p') \<in> set (zip (players d) (players d'))" and ne: "p' \<noteq> p"
      from z have p: "p \<in> set (players d)" by (rule set_zip_leftD)
      from z have "(p, p') \<in> set (map (\<lambda>x. (x, if player_id x = player_id b
                     then x\<lparr>points := points x + 1, had_bye := True\<rparr> else x)) (players d))"
        unfolding pl' award_bye_def by (simp add: zip_map2 zip_same_conv_map o_def)
      then have p': "p' = (if player_id p = player_id b
                     then p\<lparr>points := points p + 1, had_bye := True\<rparr> else p)" by auto
      with ne have i: "player_id p = player_id b" by (auto split: if_splits)
      with p have "p = b" by (rule same)
      with b show "p \<in> set (roster d t)" by simp
      from p' i show "p' = p\<lparr>points := points p + 1, had_bye := True\<rparr>" by simp
      from row i show "\<exists>q \<in> set (drop (length (pairings d)) (pairings d')).
               white_id q = player_id p \<and> black_id q = None" by simp
    qed
    have count: "length (filter (\<lambda>(p, p'). p' \<noteq> p) (zip (players d) (players d'))) \<le> 1"
      unfolding pl' using dist by (rule award_bye_changes)
    have names: "map name (players d') = map name (players d)"
      "map player_id (players d') = map player_id (players d)"
      unfolding pl' by (simp_all add: award_bye_def o_def cong: if_cong)
    have len: "length (players d') = length (players d)" unfolding pl' by (simp add: award_bye_def)
    from len names count changed odd pr show ?thesis by simp
  qed
qed

theorem generate_frame_witness:
  "generateNextRound code_units five_db 1 = Inr round1_db \<and>
   distinct (map player_id (players five_db)) \<and>
   length (players round1_db) = length (players five_db) \<and>
   map name (players round1_db) = map name (players five_db) \<and>
   map player_id (players round1_db) = map player_id (players five_db) \<and>
   length (filter (\<lambda>(p, p'). p' \<noteq> p) (zip (players five_db) (players round1_db)))
     \<le> (if odd (length (roster five_db 1)) then 1 else 0) \<and>
   (\<lparr>player_id = 1, tournament_id = 1, name = ''P1'', points = 0, had_bye = False\<rparr>,
    \<lparr>player_id = 1, tournament_id = 1, name = ''P1'', points = 1, had_bye = True\<rparr>)
     \<in> set (zip (players five_db) (players round1_db)) \<and>
   \<lparr>player_id = 1, tournament_id = 1, name = ''P1'', points = 0, had_bye = False\<rparr>
     \<in> set (roster five_db 1) \<and>
   (\<exists>q \<in> set (drop (length (pairings five_db)) (pairings round1_db)).
      white_id q = 1 \<and> black_id q = None) \<and>
   take (length (pairings five_db)) (pairings round1_db) = pairings five_db"
proof -
  let ?p = "\<lparr>player_id = 1, tournament_id = 1, name = ''P1'', points = 0, had_bye = False\<rparr>"
  let ?p' = "\<lparr>player_id = 1, tournament_id = 1, name = ''P1'', points = 1, had_bye = True\<rparr>"
  note frame = generate_frame [OF five_generated five_facts(3)]
  have z: "(?p, ?p') \<in> set (zip (players five_db) (players round1_db))"
    by (simp add: five_db_def five_players_def round1_db_def)
  have ne: "?p' \<noteq> ?p" by simp
  from frame have "\<forall>(p, p') \<in> set (zip (players five_db) (players round1_db)). p' \<noteq> p \<longrightarrow>
            p \<in> set (roster five_db 1) \<and> p' = p\<lparr>points := points p + 1, had_bye := True\<rparr> \<and>
            (\<exists>q \<in> set (drop (length (pairings five_db)) (pairings round1_db)).
               white_id q = player_id p \<and> black_id q = None)" by blast
  with z ne have "?p \<in> set (roster five_db 1) \<and>
            (\<exists>q \<in> set (drop (length (pairings five_db)) (pairings round1_db)).
               white_id q = player_id ?p \<and> black_id q = None)" by blast
  then have c: "?p \<in> set (roster five_db 1)"
    "\<exists>q \<in> set (drop (length (pairings five_db)) (pairings round1_db)).
               white_id q = 1 \<and> black_id q = None" by simp_all
  from frame five_generated five_facts(3) z c show ?thesis by blast
qed

section \<open>Games played\<close>

text \<open>
  Claim C10. When no pairing holds the key 0: the rows of the standings are the rows
  computed for the players of the roster, and the games played of a player is the number
  of pairings in which the player is white with a black player present, or is black. A
  pairing without a black player adds nothing to the games played of anyone, wherever it
  stands in the list, although it gave its white player a point.
\<close>

theorem gamesPlayed_counts_opponents:
  assumes "keyed (history d t)"
  shows "set (computeStandings d t) = standing_of (roster d t) (history d t) ` set (roster d t) \<and>
         Partidas (standing_of ps (history d t) player) =
           length (filter (\<lambda>p. (white_id p = player_id player \<and> black_id p \<noteq> None) \<or>
                               black_id p = Some (player_id player)) (history d t)) \<and>
         (black_id q = None \<longrightarrow>
            Partidas (standing_of ps (before @ q # after) player) =
            Partidas (standing_of ps (before @ after) player))"
  using opponentIds_keyed [OF assms, of player] games_count [of "history d t" "player_id player"]
  by (simp add: computeStandings_def standing_of_def bye_not_counted)

theorem gamesPlayed_counts_opponents_witness:
  "keyed (history round1_db 1) \<and>
   set (computeStandings round1_db 1) =
     standing_of (roster round1_db 1) (history round1_db 1) ` set (roster round1_db 1) \<and>
   Partidas (standing_of (roster round1_db 1) (history round1_db 1)
      \<lparr>player_id = 1, tournament_id = 1, name = ''P1'', points = 1, had_bye = True\<rparr>) =
     length (filter (\<lambda>p. (white_id p = 1 \<and> black_id p \<noteq> None) \<or> black_id p = Some 1)
               (history round1_db 1)) \<and>
   Partidas (standing_of (roster round1_db 1) (history round1_db 1)
      \<lparr>player_id = 1, tournament_id = 1, name = ''P1'', points = 1, had_bye = True\<rparr>) = 0 \<and>
   Partidas (standing_of (roster round1_db 1) (history round1_db 1)
      \<lparr>player_id = 2, tournament_id = 1, name = ''P2'', points = 0, had_bye = False\<rparr>) = 1 \<and>
   black_id (hd (pairings round1_db)) = None \<and>
   Partidas (standing_of (roster round1_db 1) ([] @ hd (pairings round1_db) # tl (pairings round1_db))
      \<lparr>player_id = 1, tournament_id = 1, name = ''P1'', points = 1, had_bye = True\<rparr>) =
   Partidas (standing_of (roster round1_db 1) ([] @ tl (pairings round1_db))
      \<lparr>player_id = 1, tournament_id = 1, name = ''P1'', points = 1, had_bye = True\<rparr>)"
proof -
  have k: "keyed (history round1_db 1)"
    by (simp add: keyed_def history_def round1_db_def)
  let ?p1 = "\<lparr>player_id = 1, tournament_id = 1, name = ''P1'', points = 1, had_bye = True\<rparr>"
  let ?p2 = "\<lparr>player_id = 2, tournament_id = 1, name = ''P2'', points = 0, had_bye = False\<rparr>"
  have b: "black_id (hd (pairings round1_db)) = None" by (simp add: round1_db_def)
  note c1 = gamesPlayed_counts_opponents [OF k, where player = ?p1 and ps = "roster round1_db 1"
      and q = "hd (pairings round1_db)" and before = "[]" and after = "tl (pairings round1_db)"]
  note c2 = gamesPlayed_counts_opponents [OF k, where player = ?p2 and ps = "roster round1_db 1"]
  have n1: "length (filter (\<lambda>p. (white_id p = 1 \<and> black_id p \<noteq> None) \<or> black_id p = Some 1)
               (history round1_db 1)) = 0"
    by (simp add: history_def round1_db_def)
  have n2: "length (filter (\<lambda>p. (white_id p = 2 \<and> black_id p \<noteq> None) \<or> black_id p = Some 2)
               (history round1_db 1)) = 1"
    by (simp add: history_def round1_db_def)
  from c1 c2 n1 n2 k b show ?thesis by simp
qed

end
